theory Spec2Isabelle
  imports Complex_Main "HOL-Library.Word"
begin

unbundle bit_operations_syntax

section \<open>The Windows platform window of qtbase (qwindowswindow.cpp)\<close>

text \<open>
  A shallow embedding of the window creation, window state and geometry code of
  \<^verbatim>\<open>src/plugins/platforms/windows/qwindowswindow.cpp\<close>, in the desktop build
  (\<^verbatim>\<open>Q_OS_WINCE\<close> and \<^verbatim>\<open>Q_FLATTEN_EXPOSE\<close> undefined).

  Native style words are 32-bit words. Coordinates are C \<^verbatim>\<open>int\<close>s; the properties
  below compare and copy them and never depend on overflow, so they are \<open>int\<close>.

  A function that changes the window or talks to the window system takes the state before
  and returns the state after. The window procedure callbacks that the window system
  dispatches while a native call is in progress (\<open>handleResized\<close>, \<open>handleMoved\<close>, ...)
  are entry points of their own; the model of a function is the body of that function.
  Debug logging (\<^verbatim>\<open>qCDebug\<close>) is left out.
\<close>

subsection \<open>Value types of the toolkit: QSize, QPoint, QMargins, QRect, RECT\<close>

type_synonym DWORD = "32 word"
type_synonym HWND = nat
type_synonym HICON = nat
type_synonym qreal = real

record QSize =
  width :: int
  height :: int

record QPoint =
  px :: int
  py :: int

record QMargins =
  margin_left :: int
  margin_top :: int
  margin_right :: int
  margin_bottom :: int

text \<open>
  Modelled from the spec: the value types QSize, QPoint, QMargins, QRect and QRegion of
  the toolkit core, whose headers are not among the sources; the spec speaks of frame
  rectangles, margins and client rectangles only through them. QRect keeps its two
  corners: \<open>x2 = x1 + width - 1\<close>, and the default rectangle \<open>QRect()\<close> is
  \<open>(0, 0, -1, -1)\<close>, which is not valid.
\<close>

record QRect =
  x1 :: int
  y1 :: int
  x2 :: int
  y2 :: int

record RECT =
  RECT_left :: int
  RECT_top :: int
  RECT_right :: int
  RECT_bottom :: int

definition QMargins_zero :: QMargins where
  "QMargins_zero = \<lparr>margin_left = 0, margin_top = 0, margin_right = 0, margin_bottom = 0\<rparr>"

definition QMargins_plus :: "QMargins \<Rightarrow> QMargins \<Rightarrow> QMargins" where
  "QMargins_plus a b =
     \<lparr>margin_left = margin_left a + margin_left b, margin_top = margin_top a + margin_top b,
      margin_right = margin_right a + margin_right b,
      margin_bottom = margin_bottom a + margin_bottom b\<rparr>"

definition QRect_null :: QRect where
  "QRect_null = \<lparr>x1 = 0, y1 = 0, x2 = - 1, y2 = - 1\<rparr>"

definition QRect_of :: "QPoint \<Rightarrow> QSize \<Rightarrow> QRect" where
  "QRect_of p s = \<lparr>x1 = px p, y1 = py p, x2 = px p + width s - 1, y2 = py p + height s - 1\<rparr>"

definition QRect_xywh :: "int \<Rightarrow> int \<Rightarrow> int \<Rightarrow> int \<Rightarrow> QRect" where
  "QRect_xywh x y w h = \<lparr>x1 = x, y1 = y, x2 = x + w - 1, y2 = y + h - 1\<rparr>"

definition isValid :: "QRect \<Rightarrow> bool" where
  "isValid r = (x1 r \<le> x2 r \<and> y1 r \<le> y2 r)"

definition isEmpty :: "QRect \<Rightarrow> bool" where
  "isEmpty r = (x1 r > x2 r \<or> y1 r > y2 r)"

definition rect_width :: "QRect \<Rightarrow> int" where
  "rect_width r = x2 r - x1 r + 1"

definition rect_height :: "QRect \<Rightarrow> int" where
  "rect_height r = y2 r - y1 r + 1"

definition rect_size :: "QRect \<Rightarrow> QSize" where
  "rect_size r = \<lparr>width = rect_width r, height = rect_height r\<rparr>"

definition topLeft :: "QRect \<Rightarrow> QPoint" where
  "topLeft r = \<lparr>px = x1 r, py = y1 r\<rparr>"

definition QPoint_plus :: "QPoint \<Rightarrow> QPoint \<Rightarrow> QPoint" where
  "QPoint_plus a b = \<lparr>px = px a + px b, py = py a + py b\<rparr>"

definition QPoint_minus :: "QPoint \<Rightarrow> QPoint \<Rightarrow> QPoint" where
  "QPoint_minus a b = \<lparr>px = px a - px b, py = py a - py b\<rparr>"

definition QPoint_neg :: "QPoint \<Rightarrow> QPoint" where
  "QPoint_neg a = \<lparr>px = - px a, py = - py a\<rparr>"

definition translated :: "QRect \<Rightarrow> QPoint \<Rightarrow> QRect" where
  "translated r p = \<lparr>x1 = x1 r + px p, y1 = y1 r + py p, x2 = x2 r + px p, y2 = y2 r + py p\<rparr>"

definition moveTopLeft :: "QRect \<Rightarrow> QPoint \<Rightarrow> QRect" where
  "moveTopLeft r p =
     \<lparr>x1 = px p, y1 = py p, x2 = x2 r + (px p - x1 r), y2 = y2 r + (py p - y1 r)\<rparr>"

definition marginsRemoved :: "QRect \<Rightarrow> QMargins \<Rightarrow> QRect" where
  "marginsRemoved r m =
     \<lparr>x1 = x1 r + margin_left m, y1 = y1 r + margin_top m,
      x2 = x2 r - margin_right m, y2 = y2 r - margin_bottom m\<rparr>"

definition marginsAdded :: "QRect \<Rightarrow> QMargins \<Rightarrow> QRect" where
  "marginsAdded r m =
     \<lparr>x1 = x1 r - margin_left m, y1 = y1 r - margin_top m,
      x2 = x2 r + margin_right m, y2 = y2 r + margin_bottom m\<rparr>"

text \<open>The three static helpers at the top of the file.\<close>

definition qSizeOfRect :: "RECT \<Rightarrow> QSize" where
  "qSizeOfRect rect =
     \<lparr>width = RECT_right rect - RECT_left rect, height = RECT_bottom rect - RECT_top rect\<rparr>"

definition qrectFromRECT :: "RECT \<Rightarrow> QRect" where
  "qrectFromRECT rect = QRect_of \<lparr>px = RECT_left rect, py = RECT_top rect\<rparr> (qSizeOfRect rect)"

definition RECTfromQRect :: "QRect \<Rightarrow> RECT" where
  "RECTfromQRect rect =
     (let x = x1 rect; y = y1 rect
      in \<lparr>RECT_left = x, RECT_top = y,
          RECT_right = x + rect_width rect, RECT_bottom = y + rect_height rect\<rparr>)"

text \<open>
  A region is the list of its rectangles. A region made from one rectangle is empty when
  the rectangle is.
\<close>

type_synonym QRegion = "QRect list"

definition QRegion_of :: "QRect \<Rightarrow> QRegion" where
  "QRegion_of r = (if isEmpty r then [] else [r])"

record QWindowsGeometryHint =
  minimumSize :: QSize
  maximumSize :: QSize
  hint_customMargins :: QMargins

subsection \<open>Constants of qnamespace.h and of the Windows headers\<close>

text \<open>
  Modelled from the spec: the constants that the spec lists as consumed from the windowing
  host (``style/ex-style bit constants'', ``show-command constants'') and the window type,
  hint and state enumerators of the toolkit. Their declarations (winuser.h, qnamespace.h,
  qwindow_p.h) are not among the sources, which use them by name; they have the values of
  those headers.
\<close>

definition Qt_Widget :: DWORD where "Qt_Widget = 0x00000000"
definition Qt_Window :: DWORD where "Qt_Window = 0x00000001"
definition Qt_Dialog :: DWORD where "Qt_Dialog = 0x00000003"
definition Qt_Sheet :: DWORD where "Qt_Sheet = 0x00000005"
definition Qt_Drawer :: DWORD where "Qt_Drawer = 0x00000007"
definition Qt_Popup :: DWORD where "Qt_Popup = 0x00000009"
definition Qt_Tool :: DWORD where "Qt_Tool = 0x0000000b"
definition Qt_ToolTip :: DWORD where "Qt_ToolTip = 0x0000000d"
definition Qt_SplashScreen :: DWORD where "Qt_SplashScreen = 0x0000000f"
definition Qt_Desktop :: DWORD where "Qt_Desktop = 0x00000011"
definition Qt_WindowType_Mask :: DWORD where "Qt_WindowType_Mask = 0x000000ff"
definition Qt_MSWindowsFixedSizeDialogHint :: DWORD where
  "Qt_MSWindowsFixedSizeDialogHint = 0x00000100"
definition Qt_FramelessWindowHint :: DWORD where "Qt_FramelessWindowHint = 0x00000800"
definition Qt_WindowTitleHint :: DWORD where "Qt_WindowTitleHint = 0x00001000"
definition Qt_WindowSystemMenuHint :: DWORD where "Qt_WindowSystemMenuHint = 0x00002000"
definition Qt_WindowMinimizeButtonHint :: DWORD where "Qt_WindowMinimizeButtonHint = 0x00004000"
definition Qt_WindowMaximizeButtonHint :: DWORD where "Qt_WindowMaximizeButtonHint = 0x00008000"
definition Qt_WindowMinMaxButtonsHint :: DWORD where "Qt_WindowMinMaxButtonsHint = 0x0000c000"
definition Qt_WindowContextHelpButtonHint :: DWORD where
  "Qt_WindowContextHelpButtonHint = 0x00010000"
definition Qt_WindowStaysOnTopHint :: DWORD where "Qt_WindowStaysOnTopHint = 0x00040000"
definition Qt_WindowTransparentForInput :: DWORD where "Qt_WindowTransparentForInput = 0x00080000"
definition Qt_CustomizeWindowHint :: DWORD where "Qt_CustomizeWindowHint = 0x02000000"
definition Qt_WindowStaysOnBottomHint :: DWORD where "Qt_WindowStaysOnBottomHint = 0x04000000"
definition Qt_WindowCloseButtonHint :: DWORD where "Qt_WindowCloseButtonHint = 0x08000000"
definition Qt_WindowFullscreenButtonHint :: DWORD where
  "Qt_WindowFullscreenButtonHint = 0x80000000"

definition QWINDOWSIZE_MAX :: int where "QWINDOWSIZE_MAX = 16777215"

datatype WindowState =
  WindowNoState | WindowMinimized | WindowMaximized | WindowFullScreen | WindowActive

fun WindowState_value :: "WindowState \<Rightarrow> DWORD" where
  "WindowState_value WindowNoState = 0x0"
| "WindowState_value WindowMinimized = 0x1"
| "WindowState_value WindowMaximized = 0x2"
| "WindowState_value WindowFullScreen = 0x4"
| "WindowState_value WindowActive = 0x8"

definition WS_OVERLAPPED :: DWORD where "WS_OVERLAPPED = 0x00000000"
definition WS_POPUP :: DWORD where "WS_POPUP = 0x80000000"
definition WS_VISIBLE :: DWORD where "WS_VISIBLE = 0x10000000"
definition WS_CLIPSIBLINGS :: DWORD where "WS_CLIPSIBLINGS = 0x04000000"
definition WS_CLIPCHILDREN :: DWORD where "WS_CLIPCHILDREN = 0x02000000"
definition WS_BORDER :: DWORD where "WS_BORDER = 0x00800000"
definition WS_SYSMENU :: DWORD where "WS_SYSMENU = 0x00080000"
definition WS_MAXIMIZEBOX :: DWORD where "WS_MAXIMIZEBOX = 0x00010000"

definition WS_EX_TOOLWINDOW :: DWORD where "WS_EX_TOOLWINDOW = 0x00000080"
definition WS_EX_LAYERED :: DWORD where "WS_EX_LAYERED = 0x00080000"

definition SW_HIDE :: int where "SW_HIDE = 0"
definition SW_SHOWNORMAL :: int where "SW_SHOWNORMAL = 1"
definition SW_SHOWMINIMIZED :: int where "SW_SHOWMINIMIZED = 2"
definition SW_SHOWMAXIMIZED :: int where "SW_SHOWMAXIMIZED = 3"
definition SW_MAXIMIZE :: int where "SW_MAXIMIZE = 3"
definition SW_SHOWNOACTIVATE :: int where "SW_SHOWNOACTIVATE = 4"
definition SW_MINIMIZE :: int where "SW_MINIMIZE = 6"
definition SW_SHOWMINNOACTIVE :: int where "SW_SHOWMINNOACTIVE = 7"
definition SW_SHOWNA :: int where "SW_SHOWNA = 8"
definition SW_FORCEMINIMIZE :: int where "SW_FORCEMINIMIZE = 11"

definition SWP_NOSIZE :: DWORD where "SWP_NOSIZE = 0x0001"
definition SWP_NOMOVE :: DWORD where "SWP_NOMOVE = 0x0002"
definition SWP_NOZORDER :: DWORD where "SWP_NOZORDER = 0x0004"
definition SWP_NOACTIVATE :: DWORD where "SWP_NOACTIVATE = 0x0010"
definition SWP_FRAMECHANGED :: DWORD where "SWP_FRAMECHANGED = 0x0020"
definition SWP_HIDEWINDOW :: DWORD where "SWP_HIDEWINDOW = 0x0080"
definition SWP_NOOWNERZORDER :: DWORD where "SWP_NOOWNERZORDER = 0x0200"

definition HWND_TOP :: int where "HWND_TOP = 0"

definition WM_SETICON :: DWORD where "WM_SETICON = 0x0080"
definition SM_CXICON :: int where "SM_CXICON = 11"
definition SM_CYICON :: int where "SM_CYICON = 12"
definition SM_CXSMICON :: int where "SM_CXSMICON = 49"
definition SM_CYSMICON :: int where "SM_CYSMICON = 50"

datatype GWL = GWL_STYLE | GWL_EXSTYLE

subsection \<open>QWindowsGeometryHint::validSize\<close>

definition validSize :: "QWindowsGeometryHint \<Rightarrow> QSize \<Rightarrow> bool" where
  "validSize h s =
     (let w = width s; ht = height s
      in w \<ge> width (minimumSize h) \<and> w \<le> width (maximumSize h)
         \<and> ht \<ge> height (minimumSize h) \<and> ht \<le> height (maximumSize h))"

subsection \<open>The native window, the toolkit window and the platform window\<close>

text \<open>
  The native window behind \<open>m_data.hwnd\<close> is the record of what the code reads back from
  the window system: the style words (\<^verbatim>\<open>GetWindowLongPtr\<close>), \<^verbatim>\<open>IsWindowVisible\<close>,
  \<^verbatim>\<open>GetWindowRect\<close>, \<^verbatim>\<open>GetWindowPlacement\<close> (its result and the two members the code
  reads), \<^verbatim>\<open>GetParent\<close>, \<^verbatim>\<open>ScreenToClient\<close> of the parent, \<^verbatim>\<open>GetAncestor\<close>,
  \<^verbatim>\<open>GetDesktopWindow\<close> and \<^verbatim>\<open>GetCapture\<close>.
\<close>

record WINDOWPLACEMENT =
  showCmd :: int
  rcNormalPosition :: RECT

record native_window =
  gwl_style :: DWORD
  gwl_exstyle :: DWORD
  isWindowVisible :: bool
  windowRect :: RECT
  getWindowPlacement_ok :: bool
  windowPlacement :: WINDOWPLACEMENT
  getParent :: HWND
  screenToClient :: "int \<times> int \<Rightarrow> int \<times> int"
  ancestor_GA_PARENT :: HWND
  ancestor_GA_ROOTOWNER :: HWND
  desktopWindow :: HWND
  getCapture :: HWND

text \<open>
  Every call that asks the window system to change something is an entry of the call log.
  Three helpers of the file whose bodies only talk to the window system or to the icon and
  OpenGL code (\<open>updateGLWindowSettings\<close>, \<open>setWindowOpacity\<close>, \<open>destroyIcon\<close>) are
  logged as one entry each.
\<close>

datatype native_call =
    SetWindowLongPtr HWND GWL DWORD
  | SetWindowLongPtr_HWNDPARENT HWND HWND
  | SetWindowPos HWND int int int int int DWORD
  | ShowWindow HWND int
  | MoveWindow HWND int int int int bool
  | SetWindowPlacement HWND WINDOWPLACEMENT
  | SetForegroundWindow HWND
  | SetCapture HWND
  | ReleaseCapture
  | EnableMenuItem HWND DWORD DWORD
  | SendMessage HWND DWORD nat HICON
  | Call_updateGLWindowSettings HWND DWORD qreal
  | Call_setWindowOpacity HWND DWORD bool bool qreal
  | Call_destroyIcon

datatype wsi_event =
    handleExposeEvent QRegion
  | handleGeometryChange_event QRect
  | handleWindowScreenChanged nat
  | flushWindowSystemEvents

record QWindowsScreen =
  scr_geometry :: QRect
  scr_availableGeometry :: QRect

text \<open>
  What the code takes from outside the file is a parameter: the reaction \<open>os\<close> of the
  window system to a call, \<^verbatim>\<open>AdjustWindowRectEx\<close> (\<open>None\<close> when it fails), the
  high-DPI scaling, the geometry of the primary screen, the screens of the screen manager,
  \<open>screenForGeometry\<close> of the base class, \<open>qFuzzyCompare\<close>, whether there is a focus
  window, the system metrics and the two coordinate mappings of QWindowsGeometryHint.
  No property below assumes anything about them.
\<close>

record env =
  os :: "native_call \<Rightarrow> native_window \<Rightarrow> native_window"
  adjustWindowRectEx :: "RECT \<Rightarrow> DWORD \<Rightarrow> bool \<Rightarrow> DWORD \<Rightarrow> RECT option"
  toNativePixels :: "QRect \<Rightarrow> QRect"
  primaryScreen :: "QRect option"
  screens :: "QWindowsScreen list"
  screenAtDp :: "QPoint \<Rightarrow> QWindowsScreen option"
  screenForGeometry :: "QRect \<Rightarrow> nat"
  qFuzzyCompare :: "qreal \<Rightarrow> qreal \<Rightarrow> bool"
  focusWindow :: bool
  getSystemMetrics :: "int \<Rightarrow> int"
  hint_mapToGlobal :: "HWND \<Rightarrow> QPoint \<Rightarrow> QPoint"
  hint_mapFromGlobal :: "HWND \<Rightarrow> QPoint \<Rightarrow> QPoint"

text \<open>
  Another QWindow, as this file uses it: the handle \<open>QWindowsWindow::handleOf\<close> gives for
  it, and, when \<open>QWindowsWindow::windowsWindowOf\<close> finds a platform window, that window's
  handle and its \<open>WithinDestroy\<close> flag.
\<close>

record QWindowRef =
  ref_handleOf :: HWND
  ref_windowsWindowOf :: "(HWND \<times> bool) option"

record QPixmap =
  pm_isNull :: bool
  qt_pixmapToWinHICON :: HICON

record QIcon =
  icon_isNull :: bool
  icon_pixmap :: "int \<Rightarrow> int \<Rightarrow> QPixmap"

text \<open>
  The toolkit window \<open>window()\<close>: the getters of QWindow that the file calls, the two
  dynamic properties it reads, the position policy and the alpha of the format.
  \<open>w_screen\<close> is the geometry of \<open>screen()\<close>, if there is a screen.
\<close>

record QWindow =
  w_flags :: DWORD
  w_type :: DWORD
  w_isTopLevel :: bool
  w_windowState :: WindowState
  w_width :: int
  w_height :: int
  w_parent :: "QWindowRef option"
  w_transientParent :: "QWindowRef option"
  w_screen :: "QRect option"
  w_platformScreen :: nat
  w_maximumSize :: QSize
  w_embedded_native_parent_handle :: "HWND option"
  w_showWithoutActivating :: "bool option"
  w_positionIncludesFrame :: bool
  w_hasAlpha :: bool

datatype Flags =
    AutoMouseCapture | WithinSetParent | FrameDirty | OpenGLSurface | OpenGL_ES2
  | OpenGLDoubleBuffered | OpenGlPixelFormatInitialized | BlockedByModal | SizeGripOperation
  | FrameStrutEventsEnabled | SynchronousGeometryChangeEvent | WithinSetStyle | WithinDestroy
  | TouchRegistered | AlertState | Exposed | WithinCreate | WithinMaximize
  | MaximizeToFullScreen | InputMethodDisabled | Compositing | HasBorderInFullScreen

datatype KeyGrabber = NoKeyGrabber | ThisWindow | OtherWindow

text \<open>
  The members of QWindowsWindow (\<open>m_data\<close> flattened), the geometry kept by the base
  class QPlatformWindow, the key grabber of QWindowsContext, the native window and the logs
  of native calls, warnings and window system interface events.
\<close>

record world =
  window :: QWindow
  m_data_hwnd :: HWND
  m_data_flags :: DWORD
  m_data_geometry :: QRect
  m_data_frame :: QMargins
  m_data_customMargins :: QMargins
  m_data_embedded :: bool
  m_flags :: "Flags set"
  m_windowState :: WindowState
  m_opacity :: qreal
  m_savedStyle :: DWORD
  m_savedFrameGeometry :: QRect
  m_iconSmall :: HICON
  m_iconBig :: HICON
  platformWindow_geometry :: QRect
  keyGrabber :: KeyGrabber
  native :: native_window
  calls :: "native_call list"
  warnings :: "string list"
  events :: "wsi_event list"

text \<open>
  Modelled from the spec: the inline members of qwindowswindow.h, which is not among the
  sources: the flags bitmask (``exposed, layered, grabbed, etc.'') with \<open>testFlag\<close>,
  \<open>setFlag\<close> and \<open>clearFlag\<close>, here a set of flags; \<open>style\<close> and \<open>exStyle\<close>, which read
  the two style words of the native window; \<open>isExposed\<close>, \<open>isLayered\<close> and
  \<open>hasMouseCapture\<close>. \<open>isVisible\<close> and \<open>isTopLevel\<close> are in the source file.
\<close>

definition testFlag :: "Flags \<Rightarrow> world \<Rightarrow> bool" where
  "testFlag f W = (f \<in> m_flags W)"

definition setFlag :: "Flags \<Rightarrow> world \<Rightarrow> world" where
  "setFlag f W = W\<lparr>m_flags := insert f (m_flags W)\<rparr>"

definition clearFlag :: "Flags \<Rightarrow> world \<Rightarrow> world" where
  "clearFlag f W = W\<lparr>m_flags := m_flags W - {f}\<rparr>"

definition invoke :: "env \<Rightarrow> native_call \<Rightarrow> world \<Rightarrow> world" where
  "invoke e c W = W\<lparr>native := os e c (native W), calls := calls W @ [c]\<rparr>"

definition qWarning :: "string \<Rightarrow> world \<Rightarrow> world" where
  "qWarning msg W = W\<lparr>warnings := warnings W @ [msg]\<rparr>"

definition post :: "wsi_event \<Rightarrow> world \<Rightarrow> world" where
  "post ev W = W\<lparr>events := events W @ [ev]\<rparr>"

definition style :: "world \<Rightarrow> DWORD" where
  "style W = gwl_style (native W)"

definition exStyle :: "world \<Rightarrow> DWORD" where
  "exStyle W = gwl_exstyle (native W)"

definition isVisible :: "world \<Rightarrow> bool" where
  "isVisible W = (m_data_hwnd W \<noteq> 0 \<and> isWindowVisible (native W))"

definition isTopLevel :: "world \<Rightarrow> bool" where
  "isTopLevel W = (w_isTopLevel (window W) \<and> \<not> m_data_embedded W)"

definition isExposed :: "world \<Rightarrow> bool" where
  "isExposed W = testFlag Exposed W"

definition isLayered :: "world \<Rightarrow> bool" where
  "isLayered W = (exStyle W AND WS_EX_LAYERED \<noteq> 0)"

definition hasMouseCapture :: "world \<Rightarrow> bool" where
  "hasMouseCapture W = (getCapture (native W) = m_data_hwnd W)"

subsection \<open>Frame margins\<close>

definition frame :: "env \<Rightarrow> DWORD \<Rightarrow> DWORD \<Rightarrow> world \<Rightarrow> QMargins \<times> world" where
  "frame e style0 exStyle0 W =
     (let rect0 = \<lparr>RECT_left = 0, RECT_top = 0, RECT_right = 0, RECT_bottom = 0\<rparr>;
          style1 = style0 AND NOT WS_OVERLAPPED;
          (rect, W1) = (case adjustWindowRectEx e rect0 style1 False exStyle0 of
                          None \<Rightarrow> (rect0, qWarning ''frame: AdjustWindowRectEx failed'' W)
                        | Some r \<Rightarrow> (r, W))
      in (\<lparr>margin_left = \<bar>RECT_left rect\<bar>, margin_top = \<bar>RECT_top rect\<bar>,
           margin_right = \<bar>RECT_right rect\<bar>, margin_bottom = \<bar>RECT_bottom rect\<bar>\<rparr>, W1))"

definition frameMargins :: "env \<Rightarrow> world \<Rightarrow> QMargins \<times> world" where
  "frameMargins e W =
     (let W2 = (if testFlag FrameDirty W then
                  (let (f, W1) = (if m_data_flags W AND Qt_FramelessWindowHint \<noteq> 0
                                  then (QMargins_zero, W)
                                  else frame e (style W) (exStyle W) W)
                   in clearFlag FrameDirty (W1\<lparr>m_data_frame := f\<rparr>))
                else W)
      in (QMargins_plus (m_data_frame W2) (m_data_customMargins W2), W2))"

subsection \<open>Coordinate mapping\<close>

definition mapToGlobal :: "env \<Rightarrow> world \<Rightarrow> QPoint \<Rightarrow> QPoint" where
  "mapToGlobal e W pos =
     (if m_data_hwnd W \<noteq> 0 then hint_mapToGlobal e (m_data_hwnd W) pos else pos)"

definition mapFromGlobal :: "env \<Rightarrow> world \<Rightarrow> QPoint \<Rightarrow> QPoint" where
  "mapFromGlobal e W pos =
     (if m_data_hwnd W \<noteq> 0 then hint_mapFromGlobal e (m_data_hwnd W) pos else pos)"

subsection \<open>WindowCreationData\<close>















subsection \<open>Reading the geometry and the visibility of the native window\<close>

datatype Visibility = Hidden | Windowed | Minimized | Maximized

definition windowPlacementOffset :: "env \<Rightarrow> world \<Rightarrow> QPoint \<Rightarrow> QPoint" where
  "windowPlacementOffset e W point =
     (if exStyle W AND WS_EX_TOOLWINDOW \<noteq> 0 then \<lparr>px = 0, py = 0\<rparr>
      else
        (case (case screens e of [s] \<Rightarrow> Some s | _ \<Rightarrow> screenAtDp e point) of
           Some screen \<Rightarrow>
             QPoint_minus (topLeft (scr_availableGeometry screen)) (topLeft (scr_geometry screen))
         | None \<Rightarrow> \<lparr>px = 0, py = 0\<rparr>))"

definition frameGeometry :: "env \<Rightarrow> world \<Rightarrow> bool \<Rightarrow> QRect" where
  "frameGeometry e W isTop =
     (if isTop \<and> showCmd (windowPlacement (native W)) = SW_SHOWMINIMIZED then
        (let result = qrectFromRECT (rcNormalPosition (windowPlacement (native W)))
         in translated result (windowPlacementOffset e W (topLeft result)))
      else
        (let rect = windowRect (native W);
             parent = getParent (native W)
         in if parent \<noteq> 0 \<and> \<not> isTop then
              (let w = RECT_right rect - RECT_left rect;
                   h = RECT_bottom rect - RECT_top rect;
                   (lx, ly) = screenToClient (native W) (RECT_left rect, RECT_top rect)
               in qrectFromRECT
                    \<lparr>RECT_left = lx, RECT_top = ly, RECT_right = lx + w, RECT_bottom = ly + h\<rparr>)
            else qrectFromRECT rect))"

definition frameGeometry_sys :: "env \<Rightarrow> world \<Rightarrow> QRect" where
  "frameGeometry_sys e W = frameGeometry e W (isTopLevel W)"

definition normalFrameGeometry :: "env \<Rightarrow> world \<Rightarrow> QRect" where
  "normalFrameGeometry e W =
     (if getWindowPlacement_ok (native W) then
        (let result = qrectFromRECT (rcNormalPosition (windowPlacement (native W)))
         in translated result (windowPlacementOffset e W (topLeft result)))
      else QRect_null)"

definition windowVisibility_sys :: "world \<Rightarrow> Visibility" where
  "windowVisibility_sys W =
     (if \<not> isWindowVisible (native W) then Hidden
      else if getWindowPlacement_ok (native W) then
        (let c = showCmd (windowPlacement (native W))
         in if c = SW_SHOWMINIMIZED \<or> c = SW_MINIMIZE \<or> c = SW_FORCEMINIMIZE then Minimized
            else if c = SW_SHOWMAXIMIZED then Maximized
            else Windowed)
      else Windowed)"

definition geometry_sys :: "env \<Rightarrow> world \<Rightarrow> QRect \<times> world" where
  "geometry_sys e W =
     (let fg = frameGeometry_sys e W;
          (margins, W1) = frameMargins e W
      in (marginsRemoved fg margins, W1))"

subsection \<open>Expose events and the geometry change notification\<close>

definition fireExpose :: "QRegion \<Rightarrow> bool \<Rightarrow> world \<Rightarrow> world" where
  "fireExpose region force W =
     post (handleExposeEvent region)
       (if region = [] \<and> \<not> force then clearFlag Exposed W else setFlag Exposed W)"

definition synthesizeExpose :: "QRect \<Rightarrow> world \<Rightarrow> world" where
  "synthesizeExpose previousGeometry W =
     (if \<not> testFlag OpenGL_ES2 W \<and> isExposed W
         \<and> rect_size (m_data_geometry W) \<noteq> rect_size previousGeometry
         \<and> \<not> (rect_width (m_data_geometry W) > rect_width previousGeometry
              \<or> rect_height (m_data_geometry W) > rect_height previousGeometry)
      then fireExpose (QRegion_of (QRect_of \<lparr>px = 0, py = 0\<rparr> (rect_size (m_data_geometry W))))
             True W
      else W)"

definition notifyScreenChange :: "env \<Rightarrow> QRect \<Rightarrow> world \<Rightarrow> world" where
  "notifyScreenChange e previousGeometry W =
     (if topLeft previousGeometry \<noteq> topLeft (m_data_geometry W) then
        (let newScreen = screenForGeometry e (m_data_geometry W)
         in if newScreen \<noteq> w_platformScreen (window W)
            then post (handleWindowScreenChanged newScreen) W else W)
      else W)"

text \<open>
  \<open>handleGeometryChange\<close>; the two conditional blocks after the geometry update are
  \<open>synthesizeExpose\<close> and \<open>notifyScreenChange\<close> above.
\<close>

definition handleGeometryChange :: "env \<Rightarrow> world \<Rightarrow> world" where
  "handleGeometryChange e W =
     (if testFlag WithinSetStyle W then W
      else
        (let previousGeometry = m_data_geometry W;
             (g, W1) = geometry_sys e W;
             W2 = W1\<lparr>m_data_geometry := g\<rparr>;
             W3 = W2\<lparr>platformWindow_geometry := m_data_geometry W2\<rparr>;
             W4 = post (handleGeometryChange_event (m_data_geometry W3)) W3;
             W5 = synthesizeExpose previousGeometry W4;
             W6 = notifyScreenChange e previousGeometry W5
         in if testFlag SynchronousGeometryChangeEvent W6
            then post flushWindowSystemEvents W6 else W6))"

fun isExposeEvent :: "wsi_event \<Rightarrow> bool" where
  "isExposeEvent (handleExposeEvent r) = True"
| "isExposeEvent ev = False"

subsection \<open>The window state\<close>

definition setStyle :: "env \<Rightarrow> DWORD \<Rightarrow> world \<Rightarrow> world" where
  "setStyle e s W =
     clearFlag WithinSetStyle
       (invoke e (SetWindowLongPtr (m_data_hwnd W) GWL_STYLE s)
         (setFlag FrameDirty (setFlag WithinSetStyle W)))"

text \<open>The block of \<open>setWindowState_sys\<close> guarded by \<^verbatim>\<open>if (!m_savedStyle)\<close>.\<close>

definition saveStyleAndGeometry :: "env \<Rightarrow> WindowState \<Rightarrow> world \<Rightarrow> world" where
  "saveStyleAndGeometry e oldState W =
     (if m_savedStyle W = 0 then
        (let W1 = W\<lparr>m_savedStyle := style W\<rparr>
         in if oldState = WindowMinimized \<or> oldState = WindowMaximized then
              (let nf = normalFrameGeometry e W1
               in if isValid nf then W1\<lparr>m_savedFrameGeometry := nf\<rparr> else W1)
            else W1\<lparr>m_savedFrameGeometry := frameGeometry_sys e W1\<rparr>)
      else W)"

text \<open>The branch \<^verbatim>\<open>newState == Qt::WindowFullScreen\<close>.\<close>

definition enterFullScreen :: "env \<Rightarrow> WindowState \<Rightarrow> bool \<Rightarrow> world \<Rightarrow> world" where
  "enterFullScreen e oldState visible W =
     (let newStyle0 = WS_CLIPCHILDREN OR WS_CLIPSIBLINGS OR WS_POPUP;
          W1 = saveStyleAndGeometry e oldState W;
          newStyle1 = (if m_savedStyle W1 AND WS_SYSMENU \<noteq> 0
                       then newStyle0 OR WS_SYSMENU else newStyle0);
          newStyle2 = (if visible then newStyle1 OR WS_VISIBLE else newStyle1);
          newStyle3 = (if testFlag HasBorderInFullScreen W1
                       then newStyle2 OR WS_BORDER else newStyle2);
          W2 = setStyle e newStyle3 W1;
          r = (case (case w_screen (window W2) of Some g \<Rightarrow> Some g | None \<Rightarrow> primaryScreen e) of
                 Some g \<Rightarrow> toNativePixels e g
               | None \<Rightarrow> m_savedFrameGeometry W2);
          swpf = SWP_FRAMECHANGED OR SWP_NOACTIVATE;
          wasSync = testFlag SynchronousGeometryChangeEvent W2;
          W3 = setFlag SynchronousGeometryChangeEvent W2;
          W4 = invoke e (SetWindowPos (m_data_hwnd W3) HWND_TOP
                           (x1 r) (y1 r) (rect_width r) (rect_height r) swpf) W3;
          W5 = (if \<not> wasSync then clearFlag SynchronousGeometryChangeEvent W4 else W4);
          W6 = post (handleGeometryChange_event r) W5
      in post flushWindowSystemEvents W6)"

text \<open>The branch \<^verbatim>\<open>newState != Qt::WindowMinimized\<close>: restore the saved state.\<close>

definition leaveFullScreen :: "env \<Rightarrow> WindowState \<Rightarrow> bool \<Rightarrow> world \<Rightarrow> world" where
  "leaveFullScreen e newState visible W =
     (let newStyle0 = (if m_savedStyle W \<noteq> 0 then m_savedStyle W else style W);
          newStyle = (if visible then newStyle0 OR WS_VISIBLE else newStyle0);
          W1 = setStyle e newStyle W;
          swpf0 = SWP_FRAMECHANGED OR SWP_NOZORDER OR SWP_NOACTIVATE;
          swpf = (if \<not> isValid (m_savedFrameGeometry W1)
                  then swpf0 OR (SWP_NOSIZE OR SWP_NOMOVE) else swpf0);
          wasSync = testFlag SynchronousGeometryChangeEvent W1;
          W2 = setFlag SynchronousGeometryChangeEvent W1;
          W3 = (if windowVisibility_sys W2 = Maximized
                then invoke e (ShowWindow (m_data_hwnd W2) SW_SHOWNOACTIVATE) W2 else W2);
          g = m_savedFrameGeometry W3;
          W4 = invoke e (SetWindowPos (m_data_hwnd W3) 0
                           (x1 g) (y1 g) (rect_width g) (rect_height g) swpf) W3;
          W5 = (if \<not> wasSync then clearFlag SynchronousGeometryChangeEvent W4 else W4);
          W6 = (if visible then
                  clearFlag WithinMaximize
                    (invoke e (ShowWindow (m_data_hwnd W5)
                                 (if newState = WindowMaximized then SW_MAXIMIZE else SW_SHOWNA))
                      (setFlag WithinMaximize W5))
                else W5)
      in W6\<lparr>m_savedStyle := 0, m_savedFrameGeometry := QRect_null\<rparr>)"

text \<open>The branch for a change between maximized and not maximized.\<close>

definition toggleMaximized :: "env \<Rightarrow> WindowState \<Rightarrow> bool \<Rightarrow> world \<Rightarrow> world" where
  "toggleMaximized e newState visible W =
     (if visible \<and> \<not> (newState = WindowMinimized) then
        (let W1 = setFlag WithinMaximize W;
             W2 = (if newState = WindowFullScreen then setFlag MaximizeToFullScreen W1 else W1);
             W3 = invoke e (ShowWindow (m_data_hwnd W2)
                              (if newState = WindowMaximized then SW_MAXIMIZE
                               else SW_SHOWNOACTIVATE)) W2
         in clearFlag MaximizeToFullScreen (clearFlag WithinMaximize W3))
      else W)"

text \<open>The last block: a change between minimized and not minimized.\<close>

definition toggleMinimized ::
  "env \<Rightarrow> WindowState \<Rightarrow> WindowState \<Rightarrow> bool \<Rightarrow> world \<Rightarrow> world" where
  "toggleMinimized e oldState newState visible W =
     (if (oldState = WindowMinimized) \<noteq> (newState = WindowMinimized) then
        (if visible then
           invoke e (ShowWindow (m_data_hwnd W)
                       (if newState = WindowMinimized then SW_MINIMIZE
                        else if newState = WindowMaximized then SW_MAXIMIZE
                        else SW_SHOWNORMAL)) W
         else W)
      else W)"

definition setWindowState_sys :: "env \<Rightarrow> WindowState \<Rightarrow> world \<Rightarrow> world" where
  "setWindowState_sys e newState W =
     (let oldState = m_windowState W
      in if oldState = newState then W
         else
           (let visible = isVisible W;
                W1 = setFlag FrameDirty W;
                W2 = (if (oldState = WindowFullScreen) \<noteq> (newState = WindowFullScreen) then
                        (if newState = WindowFullScreen then enterFullScreen e oldState visible W1
                         else if newState \<noteq> WindowMinimized
                              then leaveFullScreen e newState visible W1
                         else W1)
                      else if (oldState = WindowMaximized) \<noteq> (newState = WindowMaximized) then
                        toggleMaximized e newState visible W1
                      else W1)
            in toggleMinimized e oldState newState visible W2))"

definition setWindowState :: "env \<Rightarrow> WindowState \<Rightarrow> world \<Rightarrow> world" where
  "setWindowState e state W =
     (if m_data_hwnd W \<noteq> 0 then (setWindowState_sys e state W)\<lparr>m_windowState := state\<rparr>
      else W)"

text \<open>A sequence of \<open>setWindowState\<close> calls, first state first.\<close>

definition setWindowStates :: "env \<Rightarrow> WindowState list \<Rightarrow> world \<Rightarrow> world" where
  "setWindowStates e states W = foldl (\<lambda>W' s. setWindowState e s W') W states"

subsection \<open>Showing and hiding\<close>

definition transientParentHwnd :: "world \<Rightarrow> HWND" where
  "transientParentHwnd W =
     (if ancestor_GA_PARENT (native W) = desktopWindow (native W) then
        (let rootOwnerHwnd = ancestor_GA_ROOTOWNER (native W)
         in if rootOwnerHwnd \<noteq> m_data_hwnd W then rootOwnerHwnd else 0)
      else 0)"

definition updateTransientParent :: "env \<Rightarrow> world \<Rightarrow> world" where
  "updateTransientParent e W =
     (if w_type (window W) = Qt_Popup then W
      else
        (let oldTransientParent = transientParentHwnd W;
             newTransientParent =
               (case w_transientParent (window W) of
                  Some tp \<Rightarrow>
                    (case ref_windowsWindowOf tp of
                       Some (h, withinDestroy) \<Rightarrow> if \<not> withinDestroy then h else 0
                     | None \<Rightarrow> 0)
                | None \<Rightarrow> 0)
         in if newTransientParent \<noteq> oldTransientParent
            then invoke e (SetWindowLongPtr_HWNDPARENT (m_data_hwnd W) newTransientParent) W
            else W))"

definition testShowWithoutActivating :: "QWindow \<Rightarrow> bool" where
  "testShowWithoutActivating w =
     (case w_showWithoutActivating w of Some b \<Rightarrow> b | None \<Rightarrow> False)"

text \<open>
  The first part of \<open>show_sys\<close>, up to the end of the \<^verbatim>\<open>if (w->isTopLevel())\<close> block: it
  gives the show command, whether a maximize button was faked, and the world after
  \<open>updateTransientParent\<close> and the first \<open>setStyle\<close>.
\<close>

definition show_sys_topLevel :: "env \<Rightarrow> world \<Rightarrow> int \<times> bool \<times> world" where
  "show_sys_topLevel e W =
     (let w = window W; flags = w_flags w
      in if w_isTopLevel w then
           (let state = w_windowState w
            in if WindowState_value state AND WindowState_value WindowMinimized \<noteq> 0 then
                 (if \<not> isVisible W then SW_SHOWMINNOACTIVE else SW_SHOWMINIMIZED, False, W)
               else
                 (let W1 = updateTransientParent e W
                  in if WindowState_value state AND WindowState_value WindowMaximized \<noteq> 0 then
                       (if flags AND Qt_WindowTitleHint \<noteq> 0
                           \<and> \<not> (flags AND (Qt_WindowMinMaxButtonsHint OR Qt_FramelessWindowHint) \<noteq> 0)
                        then (SW_SHOWMAXIMIZED, True, setStyle e (style W1 OR WS_MAXIMIZEBOX) W1)
                        else (SW_SHOWMAXIMIZED, False, W1))
                     else (SW_SHOWNORMAL, False, W1)))
         else (SW_SHOWNORMAL, False, W))"

definition show_sys :: "env \<Rightarrow> world \<Rightarrow> world" where
  "show_sys e W =
     (let w = window W; type = w_type w;
          (sm0, fakedMaximize, W1) = show_sys_topLevel e W;
          sm = (if type = Qt_Popup \<or> type = Qt_ToolTip \<or> type = Qt_Tool
                   \<or> testShowWithoutActivating w
                then SW_SHOWNOACTIVATE else sm0);
          W2 = (if WindowState_value (w_windowState w) AND WindowState_value WindowMaximized \<noteq> 0
                then setFlag WithinMaximize W1 else W1);
          W3 = invoke e (ShowWindow (m_data_hwnd W2) sm) W2;
          W4 = clearFlag WithinMaximize W3
      in if fakedMaximize then
           invoke e (SetWindowPos (m_data_hwnd W4) 0 0 0 0 0
                       (SWP_NOACTIVATE OR SWP_NOMOVE OR SWP_NOSIZE OR SWP_NOZORDER
                        OR SWP_NOOWNERZORDER OR SWP_FRAMECHANGED))
             (setStyle e (style W4 AND NOT WS_MAXIMIZEBOX) W4)
         else W4)"

definition hide_sys :: "env \<Rightarrow> world \<Rightarrow> world" where
  "hide_sys e W =
     invoke e (SetWindowPos (m_data_hwnd W) 0 0 0 0 0
                 (SWP_HIDEWINDOW OR SWP_NOSIZE OR SWP_NOMOVE OR SWP_NOZORDER OR SWP_NOACTIVATE)) W"

subsection \<open>Input grabs, visibility, geometry, icon and opacity\<close>

definition setMouseGrabEnabled :: "env \<Rightarrow> bool \<Rightarrow> world \<Rightarrow> bool \<times> world" where
  "setMouseGrabEnabled e grab W =
     (if m_data_hwnd W = 0 then (False, qWarning ''setMouseGrabEnabled: No handle'' W)
      else if \<not> isVisible W \<and> grab then
        (False, qWarning ''setMouseGrabEnabled: Not setting mouse grab for invisible window'' W)
      else
        (let W1 = clearFlag AutoMouseCapture W
         in (grab,
             if hasMouseCapture W1 \<noteq> grab then
               (if grab then invoke e (SetCapture (m_data_hwnd W1)) W1
                else invoke e ReleaseCapture W1)
             else W1)))"

definition setKeyboardGrabEnabled :: "bool \<Rightarrow> world \<Rightarrow> bool \<times> world" where
  "setKeyboardGrabEnabled grab W =
     (if m_data_hwnd W = 0 then (False, qWarning ''setKeyboardGrabEnabled: No handle'' W)
      else
        (True,
         if grab then W\<lparr>keyGrabber := ThisWindow\<rparr>
         else if keyGrabber W = ThisWindow then W\<lparr>keyGrabber := NoKeyGrabber\<rparr>
         else W))"

definition setVisible :: "env \<Rightarrow> bool \<Rightarrow> world \<Rightarrow> world" where
  "setVisible e visible W =
     (let win = window W
      in if m_data_hwnd W \<noteq> 0 then
           (if visible then
              (let W1 = show_sys e W;
                   W2 = (if isLayered W1
                         then fireExpose (QRegion_of (QRect_xywh 0 0 (w_width win) (w_height win)))
                                False W1
                         else W1)
               in if w_type win = Qt_Popup \<and> w_parent win = None \<and> \<not> focusWindow e
                  then invoke e (SetForegroundWindow (m_data_hwnd W2)) W2 else W2)
            else
              (let W1 = (if hasMouseCapture W then snd (setMouseGrabEnabled e False W) else W);
                   W2 = (if w_flags (window W1) AND Qt_Popup \<noteq> 0
                         then invoke e (ShowWindow (m_data_hwnd W1) SW_HIDE) W1
                         else hide_sys e W1)
               in fireExpose [] False W2))
         else W)"

definition setGeometry_sys :: "env \<Rightarrow> QRect \<Rightarrow> world \<Rightarrow> world" where
  "setGeometry_sys e rect W =
     (let (margins, W1) = frameMargins e W;
          fg = marginsAdded rect margins;
          wp = windowPlacement (native W1)
      in if (showCmd wp = SW_MAXIMIZE \<and> \<not> isWindowVisible (native W1))
            \<or> showCmd wp = SW_SHOWMINIMIZED then
           invoke e (SetWindowPlacement (m_data_hwnd W1)
                       \<lparr>showCmd = (if showCmd wp = SW_SHOWMINIMIZED
                                   then SW_SHOWMINIMIZED else SW_HIDE),
                        rcNormalPosition =
                          RECTfromQRect
                            (translated fg
                               (QPoint_neg (windowPlacementOffset e W1 (topLeft fg))))\<rparr>) W1
         else
           invoke e (MoveWindow (m_data_hwnd W1) (x1 fg) (y1 fg) (rect_width fg) (rect_height fg)
                       True) W1)"

definition setGeometry :: "env \<Rightarrow> QRect \<Rightarrow> world \<Rightarrow> world" where
  "setGeometry e rectIn W =
     (let (rect, W1) =
            (if w_positionIncludesFrame (window W) then
               (let (margins, W0) = frameMargins e W
                in (moveTopLeft rectIn
                      (QPoint_plus (topLeft rectIn)
                         \<lparr>px = margin_left margins, py = margin_top margins\<rparr>), W0))
             else (rectIn, W));
          W2 = (if m_windowState W1 = WindowMinimized then W1\<lparr>m_data_geometry := rect\<rparr> else W1)
      in if m_data_hwnd W2 \<noteq> 0 then
           (let W3 = setGeometry_sys e rect W2
            in if m_data_geometry W3 \<noteq> rect
               then qWarning ''setGeometry: Unable to set geometry'' W3 else W3)
         else W2\<lparr>platformWindow_geometry := rect\<rparr>)"

definition createHIcon :: "QIcon \<Rightarrow> int \<Rightarrow> int \<Rightarrow> HICON" where
  "createHIcon icon xSize ySize =
     (if \<not> icon_isNull icon then
        (let pm = icon_pixmap icon xSize ySize
         in if \<not> pm_isNull pm then qt_pixmapToWinHICON pm else 0)
      else 0)"

definition setWindowIcon :: "env \<Rightarrow> QIcon \<Rightarrow> world \<Rightarrow> world" where
  "setWindowIcon e icon W =
     (if m_data_hwnd W \<noteq> 0 then
        (let W1 = invoke e Call_destroyIcon W;
             W2 = W1\<lparr>m_iconSmall :=
                       createHIcon icon (getSystemMetrics e SM_CXSMICON)
                         (getSystemMetrics e SM_CYSMICON)\<rparr>;
             W3 = W2\<lparr>m_iconBig :=
                       createHIcon icon (getSystemMetrics e SM_CXICON)
                         (getSystemMetrics e SM_CYICON)\<rparr>
         in if m_iconBig W3 \<noteq> 0 then
              invoke e (SendMessage (m_data_hwnd W3) WM_SETICON 1 (m_iconBig W3))
                (invoke e (SendMessage (m_data_hwnd W3) WM_SETICON 0 (m_iconSmall W3)) W3)
            else
              invoke e (SendMessage (m_data_hwnd W3) WM_SETICON 1 (m_iconSmall W3))
                (invoke e (SendMessage (m_data_hwnd W3) WM_SETICON 0 (m_iconSmall W3)) W3))
      else W)"

definition setOpacity :: "env \<Rightarrow> qreal \<Rightarrow> world \<Rightarrow> world" where
  "setOpacity e level W =
     (if \<not> qFuzzyCompare e (m_opacity W) level then
        (let W1 = W\<lparr>m_opacity := level\<rparr>
         in if m_data_hwnd W1 \<noteq> 0 then
              invoke e (Call_setWindowOpacity (m_data_hwnd W1) (m_data_flags W1)
                          (w_hasAlpha (window W1)) (testFlag OpenGLSurface W1) level) W1
            else W1)
      else W)"

subsection \<open>A native window and a platform window to run the model on\<close>

text \<open>
  \<open>example_os\<close> keeps the style words and the rectangle that are written to it, and the
  show command: \<^verbatim>\<open>ShowWindow\<close> also sets or clears \<^verbatim>\<open>WS_VISIBLE\<close>. It ignores every
  other call.
\<close>

fun example_os :: "native_call \<Rightarrow> native_window \<Rightarrow> native_window" where
  "example_os (SetWindowLongPtr h GWL_STYLE v) n = n\<lparr>gwl_style := v\<rparr>"
| "example_os (SetWindowLongPtr h GWL_EXSTYLE v) n = n\<lparr>gwl_exstyle := v\<rparr>"
| "example_os (SetWindowPos h after x y w ht f) n =
     (let r = windowRect n;
          l = (if f AND SWP_NOMOVE \<noteq> 0 then RECT_left r else x);
          t = (if f AND SWP_NOMOVE \<noteq> 0 then RECT_top r else y);
          w1 = (if f AND SWP_NOSIZE \<noteq> 0 then RECT_right r - RECT_left r else w);
          h1 = (if f AND SWP_NOSIZE \<noteq> 0 then RECT_bottom r - RECT_top r else ht)
      in n\<lparr>windowRect := \<lparr>RECT_left = l, RECT_top = t, RECT_right = l + w1, RECT_bottom = t + h1\<rparr>\<rparr>)"
| "example_os (ShowWindow h cmd) n =
     n\<lparr>isWindowVisible := (cmd \<noteq> SW_HIDE),
       gwl_style := (if cmd \<noteq> SW_HIDE then gwl_style n OR WS_VISIBLE
                     else gwl_style n AND NOT WS_VISIBLE),
       windowPlacement := (windowPlacement n)\<lparr>showCmd := cmd\<rparr>\<rparr>"
| "example_os c n = n"

definition example_env :: env where
  "example_env =
     \<lparr>os = example_os,
      adjustWindowRectEx = (\<lambda>r s menu x.
         Some \<lparr>RECT_left = RECT_left r - 8, RECT_top = RECT_top r - 31,
               RECT_right = RECT_right r + 8, RECT_bottom = RECT_bottom r + 8\<rparr>),
      toNativePixels = (\<lambda>r. r),
      primaryScreen = Some (QRect_xywh 0 0 1920 1080),
      screens = [\<lparr>scr_geometry = QRect_xywh 0 0 1920 1080,
                  scr_availableGeometry = QRect_xywh 0 0 1920 1040\<rparr>],
      screenAtDp = (\<lambda>p. None),
      screenForGeometry = (\<lambda>r. 0),
      qFuzzyCompare = (\<lambda>a b. a = b),
      focusWindow = False,
      getSystemMetrics = (\<lambda>i. 32),
      hint_mapToGlobal = (\<lambda>h p. \<lparr>px = px p + 100, py = py p + 100\<rparr>),
      hint_mapFromGlobal = (\<lambda>h p. \<lparr>px = px p - 100, py = py p - 100\<rparr>)\<rparr>"

definition example_native :: native_window where
  "example_native =
     \<lparr>gwl_style = 0x16CF0000, gwl_exstyle = 0, isWindowVisible = True,
      windowRect = \<lparr>RECT_left = 100, RECT_top = 100, RECT_right = 740, RECT_bottom = 580\<rparr>,
      getWindowPlacement_ok = True,
      windowPlacement =
        \<lparr>showCmd = 1,
         rcNormalPosition =
           \<lparr>RECT_left = 100, RECT_top = 100, RECT_right = 740, RECT_bottom = 580\<rparr>\<rparr>,
      getParent = 0, screenToClient = (\<lambda>p. p),
      ancestor_GA_PARENT = 1, ancestor_GA_ROOTOWNER = 7, desktopWindow = 1, getCapture = 0\<rparr>"

definition example_window :: QWindow where
  "example_window =
     \<lparr>w_flags = 0x0800F001, w_type = Qt_Window, w_isTopLevel = True,
      w_windowState = WindowNoState, w_width = 624, w_height = 441,
      w_parent = None, w_transientParent = None,
      w_screen = Some (QRect_xywh 0 0 1920 1080), w_platformScreen = 0,
      w_maximumSize = \<lparr>width = QWINDOWSIZE_MAX, height = QWINDOWSIZE_MAX\<rparr>,
      w_embedded_native_parent_handle = None, w_showWithoutActivating = None,
      w_positionIncludesFrame = False, w_hasAlpha = False\<rparr>"

definition example_world :: world where
  "example_world =
     \<lparr>window = example_window, m_data_hwnd = 7, m_data_flags = 0x0800F001,
      m_data_geometry = QRect_xywh 108 131 624 441,
      m_data_frame = \<lparr>margin_left = 8, margin_top = 31, margin_right = 8, margin_bottom = 8\<rparr>,
      m_data_customMargins = QMargins_zero, m_data_embedded = False,
      m_flags = {Exposed}, m_windowState = WindowNoState, m_opacity = 1,
      m_savedStyle = 0, m_savedFrameGeometry = QRect_null,
      m_iconSmall = 0, m_iconBig = 0,
      platformWindow_geometry = QRect_xywh 108 131 624 441,
      keyGrabber = NoKeyGrabber, native = example_native,
      calls = [], warnings = [], events = []\<rparr>"

text \<open>
  Variants of the example: a maximized window, a maximized tool window with a title, a
  maximized window with a title and no minimize or maximize button, a window without a
  native handle, and one without a handle whose position includes the frame and whose
  frame margins are to be recomputed.
\<close>

definition example_maximized :: world where
  "example_maximized =
     example_world
       \<lparr>m_windowState := WindowMaximized,
        native := example_native
          \<lparr>windowRect :=
             \<lparr>RECT_left = - 8, RECT_top = - 8, RECT_right = 1928, RECT_bottom = 1048\<rparr>,
           windowPlacement :=
             \<lparr>showCmd = 3,
              rcNormalPosition =
                \<lparr>RECT_left = 100, RECT_top = 100, RECT_right = 740, RECT_bottom = 580\<rparr>\<rparr>\<rparr>\<rparr>"

definition example_tool :: world where
  "example_tool =
     example_world
       \<lparr>window := example_window
          \<lparr>w_type := Qt_Tool, w_flags := Qt_Tool OR Qt_WindowTitleHint,
           w_windowState := WindowMaximized\<rparr>,
        native := example_native\<lparr>gwl_style := 0x06CC0000, isWindowVisible := False\<rparr>\<rparr>"

definition example_noMaxButton :: world where
  "example_noMaxButton =
     example_world
       \<lparr>window := example_window
          \<lparr>w_flags := Qt_Window OR Qt_WindowTitleHint OR Qt_WindowSystemMenuHint
                       OR Qt_WindowCloseButtonHint,
           w_windowState := WindowMaximized\<rparr>,
        native := example_native\<lparr>gwl_style := 0x06CC0000, isWindowVisible := False\<rparr>\<rparr>"

definition example_noHandle :: world where
  "example_noHandle = example_world\<lparr>m_data_hwnd := 0\<rparr>"

definition example_framePosition :: world where
  "example_framePosition =
     example_noHandle
       \<lparr>window := example_window\<lparr>w_positionIncludesFrame := True\<rparr>, m_flags := {FrameDirty},
        m_data_frame := QMargins_zero\<rparr>"

section \<open>Properties\<close>

subsection \<open>Basic facts about the model\<close>

lemmas prim_defs = testFlag_def setFlag_def clearFlag_def invoke_def post_def qWarning_def

lemmas qt_consts =
  Qt_Widget_def Qt_Window_def Qt_Dialog_def Qt_Sheet_def Qt_Drawer_def Qt_Popup_def Qt_Tool_def
  Qt_ToolTip_def Qt_SplashScreen_def Qt_WindowType_Mask_def Qt_MSWindowsFixedSizeDialogHint_def
  Qt_FramelessWindowHint_def Qt_WindowTitleHint_def Qt_WindowSystemMenuHint_def
  Qt_WindowMinimizeButtonHint_def Qt_WindowMaximizeButtonHint_def Qt_WindowMinMaxButtonsHint_def
  Qt_WindowContextHelpButtonHint_def Qt_WindowStaysOnTopHint_def Qt_WindowTransparentForInput_def
  Qt_CustomizeWindowHint_def Qt_WindowStaysOnBottomHint_def Qt_WindowCloseButtonHint_def
  Qt_WindowFullscreenButtonHint_def


lemma setFlag_fields:
  "m_savedStyle (setFlag f W) = m_savedStyle W"
  "m_savedFrameGeometry (setFlag f W) = m_savedFrameGeometry W"
  "m_data_hwnd (setFlag f W) = m_data_hwnd W"
  "m_windowState (setFlag f W) = m_windowState W"
  "calls (setFlag f W) = calls W"
  by (simp_all add: setFlag_def)

lemma setStyle_fields:
  "m_savedStyle (setStyle e s W) = m_savedStyle W"
  "m_savedFrameGeometry (setStyle e s W) = m_savedFrameGeometry W"
  "m_data_hwnd (setStyle e s W) = m_data_hwnd W"
  "m_windowState (setStyle e s W) = m_windowState W"
  "window (setStyle e s W) = window W"
  "calls (setStyle e s W) = calls W @ [SetWindowLongPtr (m_data_hwnd W) GWL_STYLE s]"
  by (simp_all add: setStyle_def prim_defs)

lemma invoke_fields:
  "calls (invoke e c W) = calls W @ [c]"
  "native (invoke e c W) = os e c (native W)"
  "m_data_hwnd (invoke e c W) = m_data_hwnd W"
  "m_savedFrameGeometry (invoke e c W) = m_savedFrameGeometry W"
  "window (invoke e c W) = window W"
  by (simp_all add: invoke_def)

lemma clearFlag_fields:
  "calls (clearFlag f W) = calls W"
  "native (clearFlag f W) = native W"
  "m_data_hwnd (clearFlag f W) = m_data_hwnd W"
  "m_savedFrameGeometry (clearFlag f W) = m_savedFrameGeometry W"
  "window (clearFlag f W) = window W"
  by (simp_all add: clearFlag_def)

lemma setFlag_more:
  "native (setFlag f W) = native W"
  "window (setFlag f W) = window W"
  by (simp_all add: setFlag_def)

lemma post_fields:
  "calls (post ev W) = calls W"
  "native (post ev W) = native W"
  by (simp_all add: post_def)

lemma testFlag_setFlag: "testFlag f (setFlag g W) = (f = g \<or> testFlag f W)"
  by (auto simp: testFlag_def setFlag_def)

lemma setStyle_native:
  "native (setStyle e s W) = os e (SetWindowLongPtr (m_data_hwnd W) GWL_STYLE s) (native W)"
  by (simp add: setStyle_def prim_defs)

lemma record_update_fields:
  "calls (W\<lparr>m_savedStyle := a, m_savedFrameGeometry := b\<rparr>) = calls W"
  "native (W\<lparr>m_savedStyle := a, m_savedFrameGeometry := b\<rparr>) = native W"
  by simp_all

lemma windowVisibility_sys_native:
  "native W' = native W \<Longrightarrow> windowVisibility_sys W' = windowVisibility_sys W"
  by (simp add: windowVisibility_sys_def)

lemma saveStyleAndGeometry_native:
  "native (saveStyleAndGeometry e old W) = native W"
  by (simp add: saveStyleAndGeometry_def Let_def)

lemma geometry_reads:
  "frameGeometry_sys e (W\<lparr>m_savedStyle := s\<rparr>) = frameGeometry_sys e W"
  "normalFrameGeometry e (W\<lparr>m_savedStyle := s\<rparr>) = normalFrameGeometry e W"
  "frameGeometry_sys e (setFlag f W) = frameGeometry_sys e W"
  "normalFrameGeometry e (setFlag f W) = normalFrameGeometry e W"
  "style (setFlag f W) = style W"
  by (simp_all add: frameGeometry_sys_def frameGeometry_def normalFrameGeometry_def
      windowPlacementOffset_def isTopLevel_def exStyle_def style_def setFlag_def Let_def)

lemma saveStyleAndGeometry_fields:
  "m_data_hwnd (saveStyleAndGeometry e old W) = m_data_hwnd W"
  "m_windowState (saveStyleAndGeometry e old W) = m_windowState W"
  "window (saveStyleAndGeometry e old W) = window W"
  "calls (saveStyleAndGeometry e old W) = calls W"
  "m_flags (saveStyleAndGeometry e old W) = m_flags W"
  by (simp_all add: saveStyleAndGeometry_def Let_def)

lemma saveStyleAndGeometry_pending:
  "m_savedStyle W \<noteq> 0 \<Longrightarrow> saveStyleAndGeometry e old W = W"
  by (simp add: saveStyleAndGeometry_def)

lemma saveStyleAndGeometry_saves:
  assumes "m_savedStyle W = 0"
  shows "m_savedStyle (saveStyleAndGeometry e old W) = style W"
    and "m_savedFrameGeometry (saveStyleAndGeometry e old W) =
           (if old = WindowMinimized \<or> old = WindowMaximized then
              (if isValid (normalFrameGeometry e W) then normalFrameGeometry e W
               else m_savedFrameGeometry W)
            else frameGeometry_sys e W)"
  using assms by (simp_all add: saveStyleAndGeometry_def Let_def geometry_reads)

lemma enterFullScreen_fields:
  "m_savedStyle (enterFullScreen e old vis W) = m_savedStyle (saveStyleAndGeometry e old W)"
  "m_savedFrameGeometry (enterFullScreen e old vis W) =
     m_savedFrameGeometry (saveStyleAndGeometry e old W)"
  "m_data_hwnd (enterFullScreen e old vis W) = m_data_hwnd W"
  by (simp_all add: enterFullScreen_def Let_def setStyle_fields saveStyleAndGeometry_fields
      prim_defs)

lemma toggleMaximized_fields:
  "m_savedStyle (toggleMaximized e new vis W) = m_savedStyle W"
  "m_savedFrameGeometry (toggleMaximized e new vis W) = m_savedFrameGeometry W"
  "m_data_hwnd (toggleMaximized e new vis W) = m_data_hwnd W"
  by (simp_all add: toggleMaximized_def Let_def prim_defs)

lemma toggleMinimized_fields:
  "m_savedStyle (toggleMinimized e old new vis W) = m_savedStyle W"
  "m_savedFrameGeometry (toggleMinimized e old new vis W) = m_savedFrameGeometry W"
  "m_data_hwnd (toggleMinimized e old new vis W) = m_data_hwnd W"
  by (simp_all add: toggleMinimized_def prim_defs)

lemma leaveFullScreen_fields:
  "m_savedStyle (leaveFullScreen e new vis W) = 0"
  "m_savedFrameGeometry (leaveFullScreen e new vis W) = QRect_null"
  "m_data_hwnd (leaveFullScreen e new vis W) = m_data_hwnd W"
  by (simp_all add: leaveFullScreen_def Let_def setStyle_fields prim_defs)

lemma setWindowState_sys_saved:
  "m_savedStyle (setWindowState_sys e new W) =
     (if m_windowState W = new then m_savedStyle W
      else if new = WindowFullScreen
        then m_savedStyle (saveStyleAndGeometry e (m_windowState W) (setFlag FrameDirty W))
      else if m_windowState W = WindowFullScreen \<and> new \<noteq> WindowMinimized then 0
      else m_savedStyle W)"
  "m_savedFrameGeometry (setWindowState_sys e new W) =
     (if m_windowState W = new then m_savedFrameGeometry W
      else if new = WindowFullScreen
        then m_savedFrameGeometry (saveStyleAndGeometry e (m_windowState W) (setFlag FrameDirty W))
      else if m_windowState W = WindowFullScreen \<and> new \<noteq> WindowMinimized then QRect_null
      else m_savedFrameGeometry W)"
  by (simp_all add: setWindowState_sys_def Let_def toggleMinimized_fields toggleMaximized_fields
      leaveFullScreen_fields enterFullScreen_fields setFlag_fields)

lemma setWindowState_pending:
  assumes "m_savedStyle W \<noteq> 0"
  shows "m_savedStyle (setWindowState e WindowFullScreen W) = m_savedStyle W"
    and "m_savedFrameGeometry (setWindowState e WindowFullScreen W) = m_savedFrameGeometry W"
    and "(m_savedStyle (setWindowState e S W) = m_savedStyle W
          \<and> m_savedFrameGeometry (setWindowState e S W) = m_savedFrameGeometry W)
       \<or> (m_savedStyle (setWindowState e S W) = 0
          \<and> m_savedFrameGeometry (setWindowState e S W) = QRect_null)"
  using assms
  by (simp_all add: setWindowState_def setWindowState_sys_saved saveStyleAndGeometry_pending
      setFlag_fields)

lemma setWindowStates_snoc:
  "setWindowStates e (ss @ [s]) W = setWindowState e s (setWindowStates e ss W)"
  by (simp add: setWindowStates_def)

lemma fst_frame: "fst (frame e s x W) = fst (frame e s x W')"
  by (simp add: frame_def Let_def split: option.splits)

lemma snd_frame_fields:
  "m_data_customMargins (snd (frame e s x W)) = m_data_customMargins W"
  "m_flags (snd (frame e s x W)) = m_flags W"
  "calls (snd (frame e s x W)) = calls W"
  "native (snd (frame e s x W)) = native W"
  "events (snd (frame e s x W)) = events W"
  by (simp_all add: frame_def Let_def qWarning_def split: option.splits)


lemma setWindowState_hwnd: "m_data_hwnd (setWindowState e s W) = m_data_hwnd W"
  by (simp add: setWindowState_def setWindowState_sys_def Let_def toggleMinimized_fields
      toggleMaximized_fields leaveFullScreen_fields enterFullScreen_fields setFlag_fields)

lemma setWindowState_state:
  "m_data_hwnd W \<noteq> 0 \<Longrightarrow> m_windowState (setWindowState e s W) = s"
  by (simp add: setWindowState_def)

lemma setWindowState_saved:
  "m_data_hwnd W \<noteq> 0 \<Longrightarrow>
     m_savedStyle (setWindowState e s W) = m_savedStyle (setWindowState_sys e s W)"
  "m_data_hwnd W \<noteq> 0 \<Longrightarrow>
     m_savedFrameGeometry (setWindowState e s W) = m_savedFrameGeometry (setWindowState_sys e s W)"
  "m_data_hwnd W \<noteq> 0 \<Longrightarrow> calls (setWindowState e s W) = calls (setWindowState_sys e s W)"
  by (simp_all add: setWindowState_def)

lemma enterFullScreen_log:
  assumes fs: "fs = (((WS_CLIPCHILDREN OR WS_CLIPSIBLINGS OR WS_POPUP)
                    OR (if m_savedStyle (saveStyleAndGeometry e old W) AND WS_SYSMENU \<noteq> 0
                        then WS_SYSMENU else 0))
                    OR (if vis then WS_VISIBLE else 0))
                    OR (if testFlag HasBorderInFullScreen W then WS_BORDER else 0)"
      and r: "r = (case (case w_screen (window W) of Some g \<Rightarrow> Some g | None \<Rightarrow> primaryScreen e) of
                  Some g \<Rightarrow> toNativePixels e g
                | None \<Rightarrow> m_savedFrameGeometry (saveStyleAndGeometry e old W))"
      and cs: "cs = [SetWindowLongPtr (m_data_hwnd W) GWL_STYLE fs,
                 SetWindowPos (m_data_hwnd W) HWND_TOP (x1 r) (y1 r) (rect_width r) (rect_height r)
                   (SWP_FRAMECHANGED OR SWP_NOACTIVATE)]"
  shows "calls (enterFullScreen e old vis W) = calls W @ cs
       \<and> native (enterFullScreen e old vis W) = foldl (\<lambda>n c. os e c n) (native W) cs"
proof -
  define S1 where "S1 = saveStyleAndGeometry e old W"
  define ns where "ns = (if testFlag HasBorderInFullScreen S1
                       then (if vis then (if m_savedStyle S1 AND WS_SYSMENU \<noteq> 0
                       then (WS_CLIPCHILDREN OR WS_CLIPSIBLINGS OR WS_POPUP) OR WS_SYSMENU
                       else WS_CLIPCHILDREN OR WS_CLIPSIBLINGS OR WS_POPUP) OR WS_VISIBLE
                         else (if m_savedStyle S1 AND WS_SYSMENU \<noteq> 0
                       then (WS_CLIPCHILDREN OR WS_CLIPSIBLINGS OR WS_POPUP) OR WS_SYSMENU
                       else WS_CLIPCHILDREN OR WS_CLIPSIBLINGS OR WS_POPUP)) OR WS_BORDER
                       else (if vis then (if m_savedStyle S1 AND WS_SYSMENU \<noteq> 0
                       then (WS_CLIPCHILDREN OR WS_CLIPSIBLINGS OR WS_POPUP) OR WS_SYSMENU
                       else WS_CLIPCHILDREN OR WS_CLIPSIBLINGS OR WS_POPUP) OR WS_VISIBLE
                         else (if m_savedStyle S1 AND WS_SYSMENU \<noteq> 0
                       then (WS_CLIPCHILDREN OR WS_CLIPSIBLINGS OR WS_POPUP) OR WS_SYSMENU
                       else WS_CLIPCHILDREN OR WS_CLIPSIBLINGS OR WS_POPUP)))"
  define W2 where "W2 = setStyle e ns S1"
  define r2 where "r2 = (case (case w_screen (window W2) of Some g \<Rightarrow> Some g | None \<Rightarrow> primaryScreen e) of
                 Some g \<Rightarrow> toNativePixels e g
               | None \<Rightarrow> m_savedFrameGeometry W2)"
  define W3 where "W3 = setFlag SynchronousGeometryChangeEvent W2"
  define W4 where "W4 = invoke e (SetWindowPos (m_data_hwnd W3) HWND_TOP
                           (x1 r2) (y1 r2) (rect_width r2) (rect_height r2)
                           (SWP_FRAMECHANGED OR SWP_NOACTIVATE)) W3"
  define W5 where "W5 = (if \<not> testFlag SynchronousGeometryChangeEvent W2
                         then clearFlag SynchronousGeometryChangeEvent W4 else W4)"
  have eq: "enterFullScreen e old vis W
              = post flushWindowSystemEvents (post (handleGeometryChange_event r2) W5)"
    unfolding enterFullScreen_def Let_def W5_def W4_def W3_def r2_def W2_def ns_def S1_def
    by (rule refl)
  have s1: "calls S1 = calls W" "native S1 = native W" "m_data_hwnd S1 = m_data_hwnd W"
           "window S1 = window W" "m_flags S1 = m_flags W"
    by (simp_all add: S1_def saveStyleAndGeometry_fields saveStyleAndGeometry_native)
  have nsfs: "ns = fs"
    unfolding ns_def fs S1_def [symmetric] by (simp add: testFlag_def s1)
  have f2: "calls W2 = calls W @ [SetWindowLongPtr (m_data_hwnd W) GWL_STYLE fs]"
           "native W2 = os e (SetWindowLongPtr (m_data_hwnd W) GWL_STYLE fs) (native W)"
           "m_data_hwnd W2 = m_data_hwnd W" "window W2 = window W"
           "m_savedFrameGeometry W2 = m_savedFrameGeometry S1"
    by (simp_all add: W2_def setStyle_fields setStyle_native s1 nsfs)
  have rr: "r2 = r"
    unfolding r2_def r S1_def [symmetric] by (simp add: f2 split: option.splits)
  have f3: "calls W3 = calls W2" "native W3 = native W2" "m_data_hwnd W3 = m_data_hwnd W"
    by (simp_all add: W3_def setFlag_fields setFlag_more f2)
  have f4: "calls W4 = calls W @ cs" "native W4 = foldl (\<lambda>n c. os e c n) (native W) cs"
    by (simp_all add: W4_def invoke_fields f3 f2 rr cs)
  have f5: "calls W5 = calls W @ cs" "native W5 = foldl (\<lambda>n c. os e c n) (native W) cs"
    by (simp_all add: W5_def clearFlag_fields f4)
  show ?thesis
    by (simp add: eq post_fields f5)
qed

lemma leaveFullScreen_log:
  assumes st: "st = (if vis then (if m_savedStyle W \<noteq> 0 then m_savedStyle W else style W) OR WS_VISIBLE
                 else (if m_savedStyle W \<noteq> 0 then m_savedStyle W else style W))"
      and n1: "n1 = os e (SetWindowLongPtr (m_data_hwnd W) GWL_STYLE st) (native W)"
      and cs: "cs = [SetWindowLongPtr (m_data_hwnd W) GWL_STYLE st]
              @ (if windowVisibility_sys (W\<lparr>native := n1\<rparr>) = Maximized
                 then [ShowWindow (m_data_hwnd W) SW_SHOWNOACTIVATE] else [])
              @ [SetWindowPos (m_data_hwnd W) 0
                   (x1 (m_savedFrameGeometry W)) (y1 (m_savedFrameGeometry W))
                   (rect_width (m_savedFrameGeometry W)) (rect_height (m_savedFrameGeometry W))
                   (if isValid (m_savedFrameGeometry W)
                    then SWP_FRAMECHANGED OR SWP_NOZORDER OR SWP_NOACTIVATE
                    else (SWP_FRAMECHANGED OR SWP_NOZORDER OR SWP_NOACTIVATE)
                         OR (SWP_NOSIZE OR SWP_NOMOVE))]
              @ (if vis then [ShowWindow (m_data_hwnd W)
                                (if new = WindowMaximized then SW_MAXIMIZE else SW_SHOWNA)]
                 else [])"
  shows "calls (leaveFullScreen e new vis W) = calls W @ cs
       \<and> native (leaveFullScreen e new vis W) = foldl (\<lambda>n c. os e c n) (native W) cs"
proof -
  define swpf where "swpf = (if \<not> isValid (m_savedFrameGeometry W)
                    then (SWP_FRAMECHANGED OR SWP_NOZORDER OR SWP_NOACTIVATE)
                         OR (SWP_NOSIZE OR SWP_NOMOVE)
                    else SWP_FRAMECHANGED OR SWP_NOZORDER OR SWP_NOACTIVATE)"
  define W1 where "W1 = setStyle e st W"
  define W2 where "W2 = setFlag SynchronousGeometryChangeEvent W1"
  define W3 where "W3 = (if windowVisibility_sys W2 = Maximized
                then invoke e (ShowWindow (m_data_hwnd W2) SW_SHOWNOACTIVATE) W2 else W2)"
  define W4 where "W4 = invoke e (SetWindowPos (m_data_hwnd W3) 0
                           (x1 (m_savedFrameGeometry W3)) (y1 (m_savedFrameGeometry W3))
                           (rect_width (m_savedFrameGeometry W3))
                           (rect_height (m_savedFrameGeometry W3)) swpf) W3"
  define W5 where "W5 = (if \<not> testFlag SynchronousGeometryChangeEvent W1
                         then clearFlag SynchronousGeometryChangeEvent W4 else W4)"
  define W6 where "W6 = (if vis then
                  clearFlag WithinMaximize
                    (invoke e (ShowWindow (m_data_hwnd W5)
                                 (if new = WindowMaximized then SW_MAXIMIZE else SW_SHOWNA))
                      (setFlag WithinMaximize W5))
                else W5)"
  have g1: "m_savedFrameGeometry W1 = m_savedFrameGeometry W"
    by (simp add: W1_def setStyle_fields)
  have eq: "leaveFullScreen e new vis W = W6\<lparr>m_savedStyle := 0, m_savedFrameGeometry := QRect_null\<rparr>"
    unfolding leaveFullScreen_def Let_def W6_def W5_def W4_def W3_def W2_def W1_def swpf_def
      st setStyle_fields(2)
    by (rule refl)
  have f1: "calls W1 = calls W @ [SetWindowLongPtr (m_data_hwnd W) GWL_STYLE st]"
           "native W1 = n1" "m_data_hwnd W1 = m_data_hwnd W"
    by (simp_all add: W1_def setStyle_fields setStyle_native n1)
  have f2: "calls W2 = calls W1" "native W2 = n1" "m_data_hwnd W2 = m_data_hwnd W"
           "m_savedFrameGeometry W2 = m_savedFrameGeometry W"
    by (simp_all add: W2_def setFlag_fields setFlag_more f1 g1)
  have wv: "windowVisibility_sys W2 = windowVisibility_sys (W\<lparr>native := n1\<rparr>)"
    by (rule windowVisibility_sys_native) (simp add: f2)
  define c3 where "c3 = (if windowVisibility_sys (W\<lparr>native := n1\<rparr>) = Maximized
                 then [ShowWindow (m_data_hwnd W) SW_SHOWNOACTIVATE] else [])"
  have f3: "calls W3 = calls W2 @ c3" "native W3 = foldl (\<lambda>n c. os e c n) n1 c3"
           "m_data_hwnd W3 = m_data_hwnd W" "m_savedFrameGeometry W3 = m_savedFrameGeometry W"
    by (simp_all add: W3_def c3_def wv invoke_fields f2)
  define c4 where "c4 = SetWindowPos (m_data_hwnd W) 0
                   (x1 (m_savedFrameGeometry W)) (y1 (m_savedFrameGeometry W))
                   (rect_width (m_savedFrameGeometry W)) (rect_height (m_savedFrameGeometry W))
                   swpf"
  have f4: "calls W4 = calls W3 @ [c4]" "native W4 = os e c4 (native W3)"
           "m_data_hwnd W4 = m_data_hwnd W"
    by (simp_all add: W4_def c4_def invoke_fields f3)
  have f5: "calls W5 = calls W4" "native W5 = native W4" "m_data_hwnd W5 = m_data_hwnd W"
    by (simp_all add: W5_def clearFlag_fields f4)
  define c6 where "c6 = (if vis then [ShowWindow (m_data_hwnd W)
                                (if new = WindowMaximized then SW_MAXIMIZE else SW_SHOWNA)]
                 else [])"
  have f6: "calls W6 = calls W5 @ c6" "native W6 = foldl (\<lambda>n c. os e c n) (native W5) c6"
    by (simp_all add: W6_def c6_def clearFlag_fields invoke_fields setFlag_fields setFlag_more f5)
  have cs': "cs = [SetWindowLongPtr (m_data_hwnd W) GWL_STYLE st] @ c3 @ [c4] @ c6"
    unfolding cs c3_def c4_def c6_def swpf_def by simp
  have "calls W6 = calls W @ cs"
    by (simp add: f6 f5 f4 f3 f2 f1 cs')
  moreover have "native W6 = foldl (\<lambda>n c. os e c n) (native W) cs"
    by (simp add: f6 f5 f4 f3 f2 f1 cs' n1)
  ultimately show ?thesis
    by (simp add: eq)
qed

lemma toggleMinimized_log:
  "calls (toggleMinimized e old new vis W) =
     calls W
     @ (if (old = WindowMinimized) \<noteq> (new = WindowMinimized) \<and> vis
        then [ShowWindow (m_data_hwnd W)
                (if new = WindowMinimized then SW_MINIMIZE
                 else if new = WindowMaximized then SW_MAXIMIZE else SW_SHOWNORMAL)]
        else [])"
  "native (toggleMinimized e old new vis W) =
     foldl (\<lambda>n c. os e c n) (native W)
       (if (old = WindowMinimized) \<noteq> (new = WindowMinimized) \<and> vis
        then [ShowWindow (m_data_hwnd W)
                (if new = WindowMinimized then SW_MINIMIZE
                 else if new = WindowMaximized then SW_MAXIMIZE else SW_SHOWNORMAL)]
        else [])"
  by (simp_all add: toggleMinimized_def invoke_fields)

lemma toggleMinimized_same:
  "(old = WindowMinimized) = (new = WindowMinimized) \<Longrightarrow> toggleMinimized e old new vis W = W"
  by (simp add: toggleMinimized_def)

lemma bit_WS_MAXIMIZEBOX: "bit WS_MAXIMIZEBOX i \<longleftrightarrow> i = 16"
proof -
  have e: "WS_MAXIMIZEBOX = push_bit 16 (1 :: DWORD)" by (simp add: WS_MAXIMIZEBOX_def)
  have "bit (push_bit 16 (1 :: DWORD)) i \<longleftrightarrow> i = 16"
    by (simp only: bit_push_bit_iff bit_1_iff possible_bit_word) auto
  then show ?thesis unfolding e .
qed

lemma add_remove_bits:
  fixes a b :: DWORD
  shows "bit (a OR WS_MAXIMIZEBOX) 16"
    and "\<forall>i. i \<noteq> 16 \<longrightarrow> bit (a OR WS_MAXIMIZEBOX) i = bit a i"
    and "\<not> bit (b AND NOT WS_MAXIMIZEBOX) 16"
    and "\<forall>i. i \<noteq> 16 \<longrightarrow> bit (b AND NOT WS_MAXIMIZEBOX) i = bit b i"
  by (auto simp: bit_or_iff bit_and_iff bit_not_iff bit_WS_MAXIMIZEBOX dest: bit_imp_possible_bit)

lemma updateTransientParent_fields:
  "m_data_hwnd (updateTransientParent e W) = m_data_hwnd W"
  "window (updateTransientParent e W) = window W"
  by (simp_all add: updateTransientParent_def Let_def prim_defs split: option.splits)

lemma show_sys_topLevel_faked:
  assumes "w_isTopLevel (window W)"
      and "w_windowState (window W) = WindowMaximized"
      and "w_flags (window W) AND Qt_WindowTitleHint \<noteq> 0"
      and "w_flags (window W) AND (Qt_WindowMinMaxButtonsHint OR Qt_FramelessWindowHint) = 0"
  shows "show_sys_topLevel e W =
           (SW_SHOWMAXIMIZED, True,
            setStyle e (style (updateTransientParent e W) OR WS_MAXIMIZEBOX)
              (updateTransientParent e W))"
  using assms by (simp add: show_sys_topLevel_def Let_def)

lemma frameMargins_fields:
  "events (snd (frameMargins e W)) = events W"
  "calls (snd (frameMargins e W)) = calls W"
  "native (snd (frameMargins e W)) = native W"
  "f \<noteq> FrameDirty \<Longrightarrow> testFlag f (snd (frameMargins e W)) = testFlag f W"
  by (simp_all add: frameMargins_def Let_def split_beta snd_frame_fields prim_defs)

lemma frameMargins_explicit:
  assumes fr: "fr = (if \<not> testFlag FrameDirty W then m_data_frame W
                 else if m_data_flags W AND Qt_FramelessWindowHint \<noteq> 0 then QMargins_zero
                 else (case adjustWindowRectEx e
                              \<lparr>RECT_left = 0, RECT_top = 0, RECT_right = 0, RECT_bottom = 0\<rparr>
                              (style W AND NOT WS_OVERLAPPED) False (exStyle W) of
                         Some rc \<Rightarrow> \<lparr>margin_left = \<bar>RECT_left rc\<bar>, margin_top = \<bar>RECT_top rc\<bar>,
                                     margin_right = \<bar>RECT_right rc\<bar>,
                                     margin_bottom = \<bar>RECT_bottom rc\<bar>\<rparr>
                       | None \<Rightarrow> QMargins_zero))"
      and W0: "W0 = (if testFlag FrameDirty W then
                   (if m_data_flags W AND Qt_FramelessWindowHint = 0
                       \<and> adjustWindowRectEx e
                              \<lparr>RECT_left = 0, RECT_top = 0, RECT_right = 0, RECT_bottom = 0\<rparr>
                              (style W AND NOT WS_OVERLAPPED) False (exStyle W) = None
                    then W\<lparr>warnings := warnings W @ [''frame: AdjustWindowRectEx failed'']\<rparr>
                    else W)
                     \<lparr>m_data_frame := fr, m_flags := m_flags W - {FrameDirty}\<rparr>
                 else W)"
  shows "frameMargins e W = (QMargins_plus fr (m_data_customMargins W), W0)"
  unfolding fr W0
  by (simp add: frameMargins_def frame_def Let_def prim_defs QMargins_zero_def
      split: option.splits)

lemma geometry_sys_fields:
  "events (snd (geometry_sys e W)) = events W"
  "f \<noteq> FrameDirty \<Longrightarrow> testFlag f (snd (geometry_sys e W)) = testFlag f W"
  by (simp_all add: geometry_sys_def Let_def split_beta frameMargins_fields)

lemma notifyScreenChange_fields:
  "filter isExposeEvent (events (notifyScreenChange e prev W)) = filter isExposeEvent (events W)"
  "m_flags (notifyScreenChange e prev W) = m_flags W"
  by (simp_all add: notifyScreenChange_def Let_def post_def)

lemma handleGeometryChange_events:
  assumes "\<not> testFlag WithinSetStyle W"
  shows "filter isExposeEvent (events (handleGeometryChange e W)) =
           filter isExposeEvent (events W)
           @ (if \<not> testFlag OpenGL_ES2 W \<and> isExposed W
               \<and> rect_size (fst (geometry_sys e W)) \<noteq> rect_size (m_data_geometry W)
               \<and> \<not> (rect_width (fst (geometry_sys e W)) > rect_width (m_data_geometry W)
                    \<or> rect_height (fst (geometry_sys e W)) > rect_height (m_data_geometry W))
            then [handleExposeEvent
                    (QRegion_of (QRect_of \<lparr>px = 0, py = 0\<rparr> (rect_size (fst (geometry_sys e W)))))]
            else [])"
proof -
  obtain g W1 where gs: "geometry_sys e W = (g, W1)" by (cases "geometry_sys e W")
  have ev: "events W1 = events W"
    using geometry_sys_fields(1) [of e W] gs by simp
  have fl: "testFlag OpenGL_ES2 W1 = testFlag OpenGL_ES2 W"
           "testFlag Exposed W1 = testFlag Exposed W"
    using geometry_sys_fields(2) [of OpenGL_ES2 e W] geometry_sys_fields(2) [of Exposed e W] gs
    by simp_all
  show ?thesis
    using assms ev fl
    by (simp add: handleGeometryChange_def gs Let_def notifyScreenChange_fields
        synthesizeExpose_def fireExpose_def isExposed_def prim_defs)
qed

subsection \<open>Geometry hints and frame margins\<close>

text \<open>
  C8. For a geometry hint whose minimum size is component-wise at most its maximum size,
  \<open>validSize\<close> accepts every size inside the closed box between them and rejects every
  size that is strictly below the minimum or strictly above the maximum on some axis.
\<close>

theorem validSize_box:
  assumes "width (minimumSize h) \<le> width (maximumSize h)"
      and "height (minimumSize h) \<le> height (maximumSize h)"
  shows "(width (minimumSize h) \<le> width s \<and> width s \<le> width (maximumSize h)
          \<and> height (minimumSize h) \<le> height s \<and> height s \<le> height (maximumSize h)
            \<longrightarrow> validSize h s)
       \<and> (width s < width (minimumSize h) \<or> width (maximumSize h) < width s
          \<or> height s < height (minimumSize h) \<or> height (maximumSize h) < height s
            \<longrightarrow> \<not> validSize h s)"
  by (auto simp: validSize_def Let_def)

theorem validSize_box_witness:
  "validSize \<lparr>minimumSize = \<lparr>width = 10, height = 20\<rparr>,
               maximumSize = \<lparr>width = 100, height = 200\<rparr>,
               hint_customMargins = \<lparr>margin_left = 0, margin_top = 0, margin_right = 0, margin_bottom = 0\<rparr>\<rparr>
             \<lparr>width = 10, height = 200\<rparr>
   \<and> \<not> validSize \<lparr>minimumSize = \<lparr>width = 10, height = 20\<rparr>,
               maximumSize = \<lparr>width = 100, height = 200\<rparr>,
               hint_customMargins = \<lparr>margin_left = 0, margin_top = 0, margin_right = 0, margin_bottom = 0\<rparr>\<rparr>
             \<lparr>width = 50, height = 201\<rparr>"
  using validSize_box [of "\<lparr>minimumSize = \<lparr>width = 10, height = 20\<rparr>,
               maximumSize = \<lparr>width = 100, height = 200\<rparr>,
               hint_customMargins = \<lparr>margin_left = 0, margin_top = 0, margin_right = 0, margin_bottom = 0\<rparr>\<rparr>"
             "\<lparr>width = 10, height = 200\<rparr>"]
        validSize_box [of "\<lparr>minimumSize = \<lparr>width = 10, height = 20\<rparr>,
               maximumSize = \<lparr>width = 100, height = 200\<rparr>,
               hint_customMargins = \<lparr>margin_left = 0, margin_top = 0, margin_right = 0, margin_bottom = 0\<rparr>\<rparr>"
             "\<lparr>width = 50, height = 201\<rparr>"]
  by simp

text \<open>
  C6 (as amended). When the frame margins of a window with the frameless hint are
  recomputed (\<open>FrameDirty\<close> set), the style-dependent margins \<open>m_data.frame\<close> become zero
  on all four sides whatever the native style words are, and \<open>frameMargins\<close> returns
  exactly the custom margins, hence zero margins when no custom margins are set. For all
  windows the margins returned are a function of the \<open>FrameDirty\<close> flag, the frameless
  hint, the style and extended style words, the cached frame and the custom margins.
\<close>

theorem frameMargins_frameless:
  "(m_data_flags W AND Qt_FramelessWindowHint \<noteq> 0 \<and> testFlag FrameDirty W \<longrightarrow>
      m_data_frame (snd (frameMargins e W)) = QMargins_zero
      \<and> fst (frameMargins e W) = m_data_customMargins W
      \<and> (m_data_customMargins W = QMargins_zero \<longrightarrow> fst (frameMargins e W) = QMargins_zero)
      \<and> (\<forall>n. fst (frameMargins e (W\<lparr>native := n\<rparr>)) = fst (frameMargins e W)))
   \<and> (testFlag FrameDirty W' = testFlag FrameDirty W
      \<and> (m_data_flags W' AND Qt_FramelessWindowHint \<noteq> 0)
          = (m_data_flags W AND Qt_FramelessWindowHint \<noteq> 0)
      \<and> style W' = style W \<and> exStyle W' = exStyle W
      \<and> m_data_frame W' = m_data_frame W
      \<and> m_data_customMargins W' = m_data_customMargins W \<longrightarrow>
      fst (frameMargins e W') = fst (frameMargins e W))"
proof -
  have frameless: "m_data_flags W AND Qt_FramelessWindowHint \<noteq> 0 \<and> testFlag FrameDirty W \<longrightarrow>
      m_data_frame (snd (frameMargins e W)) = QMargins_zero
      \<and> fst (frameMargins e W) = m_data_customMargins W
      \<and> (m_data_customMargins W = QMargins_zero \<longrightarrow> fst (frameMargins e W) = QMargins_zero)
      \<and> (\<forall>n. fst (frameMargins e (W\<lparr>native := n\<rparr>)) = fst (frameMargins e W))"
    by (simp add: frameMargins_def prim_defs QMargins_plus_def QMargins_zero_def Let_def)
  have det: "testFlag FrameDirty W' = testFlag FrameDirty W
      \<and> (m_data_flags W' AND Qt_FramelessWindowHint \<noteq> 0)
          = (m_data_flags W AND Qt_FramelessWindowHint \<noteq> 0)
      \<and> style W' = style W \<and> exStyle W' = exStyle W
      \<and> m_data_frame W' = m_data_frame W
      \<and> m_data_customMargins W' = m_data_customMargins W \<longrightarrow>
      fst (frameMargins e W') = fst (frameMargins e W)"
    using fst_frame [of e "style W" "exStyle W" W' W]
    by (auto simp: frameMargins_def prim_defs Let_def split_beta snd_frame_fields)
  from frameless det show ?thesis by blast
qed

theorem frameMargins_frameless_witness:
  "fst (frameMargins example_env
         (example_world\<lparr>m_data_flags := Qt_Window OR Qt_FramelessWindowHint,
                         m_flags := {FrameDirty}\<rparr>)) = QMargins_zero
   \<and> fst (frameMargins example_env (example_world\<lparr>m_data_geometry := QRect_null\<rparr>))
       = fst (frameMargins example_env example_world)"
  using frameMargins_frameless
          [of "example_world\<lparr>m_data_flags := Qt_Window OR Qt_FramelessWindowHint,
                              m_flags := {FrameDirty}\<rparr>"
              example_env "example_world\<lparr>m_data_geometry := QRect_null\<rparr>"]
        frameMargins_frameless
          [of example_world example_env "example_world\<lparr>m_data_geometry := QRect_null\<rparr>"]
  by (simp add: example_world_def testFlag_def style_def exStyle_def qt_consts)

theorem frameMargins_frameless_counterexample:
  "m_data_flags (example_world\<lparr>m_data_flags := Qt_Window OR Qt_FramelessWindowHint,
        m_flags := {FrameDirty},
        m_data_customMargins :=
          \<lparr>margin_left = 0, margin_top = 5, margin_right = 0, margin_bottom = 0\<rparr>\<rparr>)
     AND Qt_FramelessWindowHint \<noteq> 0
   \<and> fst (frameMargins example_env
       (example_world\<lparr>m_data_flags := Qt_Window OR Qt_FramelessWindowHint,
          m_flags := {FrameDirty},
          m_data_customMargins :=
            \<lparr>margin_left = 0, margin_top = 5, margin_right = 0, margin_bottom = 0\<rparr>\<rparr>))
     = \<lparr>margin_left = 0, margin_top = 5, margin_right = 0, margin_bottom = 0\<rparr>"
  by (simp add: frameMargins_def example_world_def prim_defs QMargins_plus_def QMargins_zero_def
      Qt_Window_def Qt_FramelessWindowHint_def Let_def)

subsection \<open>Coordinate mapping\<close>

text \<open>
  C10. For a window whose native handle is null, \<open>mapToGlobal\<close> and \<open>mapFromGlobal\<close>
  return the point they are given, whatever the native mapping of the environment is: it
  is not consulted.
\<close>

theorem mapToGlobal_no_handle:
  assumes "m_data_hwnd W = 0"
  shows "mapToGlobal e W p = p \<and> mapFromGlobal e W p = p"
  using assms by (simp add: mapToGlobal_def mapFromGlobal_def)

theorem mapToGlobal_no_handle_witness:
  "mapToGlobal example_env (example_world\<lparr>m_data_hwnd := 0\<rparr>) \<lparr>px = 3, py = 4\<rparr>
     = \<lparr>px = 3, py = 4\<rparr>
   \<and> mapFromGlobal example_env (example_world\<lparr>m_data_hwnd := 0\<rparr>) \<lparr>px = 3, py = 4\<rparr>
       = \<lparr>px = 3, py = 4\<rparr>"
  using mapToGlobal_no_handle
          [of "example_world\<lparr>m_data_hwnd := 0\<rparr>" example_env "\<lparr>px = 3, py = 4\<rparr>"]
  by simp

subsection \<open>Window creation\<close>




subsection \<open>The window state\<close>

text \<open>
  C3. When the current state \<open>m_windowState\<close> already is \<open>S\<close>, \<open>setWindowState S\<close> leaves
  the window, the native window and every log as they are: no native call is made, and
  \<open>m_savedStyle\<close> and \<open>m_savedFrameGeometry\<close> are unchanged.
\<close>

theorem setWindowState_idempotent:
  assumes "m_windowState W = S"
  shows "setWindowState e S W = W
       \<and> calls (setWindowState e S W) = calls W
       \<and> m_savedStyle (setWindowState e S W) = m_savedStyle W
       \<and> m_savedFrameGeometry (setWindowState e S W) = m_savedFrameGeometry W"
proof -
  have "setWindowState e S W = W"
    using assms by (simp add: setWindowState_def setWindowState_sys_def)
  then show ?thesis by simp
qed

theorem setWindowState_idempotent_witness:
  "setWindowState example_env WindowNoState example_world = example_world
   \<and> calls (setWindowState example_env WindowNoState example_world) = []"
proof -
  have s: "m_windowState example_world = WindowNoState"
    by (simp add: example_world_def)
  have c: "calls example_world = []"
    by (simp add: example_world_def)
  show ?thesis
    using setWindowState_idempotent [OF s, of example_env] c by simp
qed

text \<open>
  C2. The window has one saved style and one saved frame geometry. After any sequence of
  \<open>setWindowState\<close> calls that leaves a record pending (\<open>m_savedStyle\<close> nonzero), a further
  \<open>setWindowState FullScreen\<close> keeps the saved style and the saved frame geometry as they
  are; and a further call with any state either keeps the record or clears it, so a
  pending record is never replaced by another one.
\<close>

theorem saved_record_not_overwritten:
  assumes "m_savedStyle (setWindowStates e ss W) \<noteq> 0"
  shows "m_savedStyle (setWindowStates e (ss @ [WindowFullScreen]) W)
           = m_savedStyle (setWindowStates e ss W)
       \<and> m_savedFrameGeometry (setWindowStates e (ss @ [WindowFullScreen]) W)
           = m_savedFrameGeometry (setWindowStates e ss W)
       \<and> ((m_savedStyle (setWindowStates e (ss @ [S]) W) = m_savedStyle (setWindowStates e ss W)
            \<and> m_savedFrameGeometry (setWindowStates e (ss @ [S]) W)
                = m_savedFrameGeometry (setWindowStates e ss W))
          \<or> (m_savedStyle (setWindowStates e (ss @ [S]) W) = 0
            \<and> m_savedFrameGeometry (setWindowStates e (ss @ [S]) W) = QRect_null))"
  unfolding setWindowStates_snoc
  using setWindowState_pending [OF assms] by blast

theorem saved_record_not_overwritten_witness:
  "m_savedStyle
     (setWindowStates example_env [WindowFullScreen, WindowMinimized, WindowFullScreen]
        example_world) = 0x16CF0000
   \<and> m_savedFrameGeometry
       (setWindowStates example_env [WindowFullScreen, WindowMinimized, WindowFullScreen]
          example_world) = QRect_xywh 100 100 640 480
   \<and> m_savedStyle
       (setWindowStates example_env [WindowFullScreen, WindowMinimized, WindowNoState]
          example_world) = 0x16CF0000"
proof -
  have h: "m_savedStyle
             (setWindowStates example_env [WindowFullScreen, WindowMinimized] example_world) \<noteq> 0"
    by code_simp
  have v: "m_savedStyle
             (setWindowStates example_env [WindowFullScreen, WindowMinimized] example_world)
             = 0x16CF0000
         \<and> m_savedFrameGeometry
             (setWindowStates example_env [WindowFullScreen, WindowMinimized] example_world)
             = QRect_xywh 100 100 640 480
         \<and> m_savedStyle
             (setWindowStates example_env [WindowFullScreen, WindowMinimized, WindowNoState]
                example_world) = 0x16CF0000"
    by code_simp
  show ?thesis
    using saved_record_not_overwritten [OF h, of WindowNoState] v by simp
qed

text \<open>
  C1 (as amended). Take a window with a native handle and a nonzero style, with no saved
  record pending, in a state other than FullScreen. \<open>setWindowState FullScreen\<close> saves the
  style read on entry and, as frame geometry, the frame geometry read on entry, or for a
  start in Minimized or Maximized the normal geometry of the window placement (nothing when
  that is not valid). Its native calls are, in this order: the write of the full-screen
  style, \<open>SetWindowPos\<close> to the geometry of the screen and, for a visible window that was
  minimized, \<open>ShowWindow(SW_SHOWNORMAL)\<close>. A following \<open>setWindowState S\<close> with \<open>S\<close>
  neither Minimized nor FullScreen restores the saved style and frame geometry with exactly
  these native calls, in this order: the write of the saved style (with \<open>WS_VISIBLE\<close> added
  when the window is visible); \<open>ShowWindow(SW_SHOWNOACTIVATE)\<close> when the window is then
  visible and maximized; \<open>SetWindowPos\<close> with the saved frame geometry (and \<open>SWP_NOSIZE |
  SWP_NOMOVE\<close> when none was saved); and, when the window is visible,
  \<open>ShowWindow(SW_MAXIMIZE)\<close> for \<open>S\<close> Maximized and \<open>ShowWindow(SW_SHOWNA)\<close> otherwise. After
  each of the two operations the native window is the result of the calls listed and of no
  other, the window state is the requested one, and the second operation clears the record.
\<close>

theorem fullscreen_round_trip:
  assumes hwnd: "m_data_hwnd W \<noteq> 0"
      and none: "m_savedStyle W = 0" "m_savedFrameGeometry W = QRect_null"
      and start: "m_windowState W \<noteq> WindowFullScreen"
      and nz: "style W \<noteq> 0"
      and S: "S \<noteq> WindowMinimized" "S \<noteq> WindowFullScreen"
      and W1: "W1 = setWindowState e WindowFullScreen W"
      and W2: "W2 = setWindowState e S W1"
      and saved: "saved =
           (if m_windowState W = WindowMinimized \<or> m_windowState W = WindowMaximized then
              (if isValid (normalFrameGeometry e W) then normalFrameGeometry e W else QRect_null)
            else frameGeometry_sys e W)"
      and fs: "fs = (((WS_CLIPCHILDREN OR WS_CLIPSIBLINGS OR WS_POPUP)
                    OR (if style W AND WS_SYSMENU \<noteq> 0 then WS_SYSMENU else 0))
                    OR (if isVisible W then WS_VISIBLE else 0))
                    OR (if testFlag HasBorderInFullScreen W then WS_BORDER else 0)"
      and r: "r = (case (case w_screen (window W) of Some g \<Rightarrow> Some g | None \<Rightarrow> primaryScreen e) of
                  Some g \<Rightarrow> toNativePixels e g | None \<Rightarrow> saved)"
      and entering: "entering =
             [SetWindowLongPtr (m_data_hwnd W) GWL_STYLE fs,
              SetWindowPos (m_data_hwnd W) HWND_TOP (x1 r) (y1 r) (rect_width r) (rect_height r)
                (SWP_FRAMECHANGED OR SWP_NOACTIVATE)]
             @ (if m_windowState W = WindowMinimized \<and> isVisible W
                then [ShowWindow (m_data_hwnd W) SW_SHOWNORMAL] else [])"
      and st: "st = (if isVisible W1 then style W OR WS_VISIBLE else style W)"
      and leaving: "leaving =
             [SetWindowLongPtr (m_data_hwnd W) GWL_STYLE st]
             @ (if windowVisibility_sys
                     (W1\<lparr>native := os e (SetWindowLongPtr (m_data_hwnd W) GWL_STYLE st) (native W1)\<rparr>)
                   = Maximized
                then [ShowWindow (m_data_hwnd W) SW_SHOWNOACTIVATE] else [])
             @ [SetWindowPos (m_data_hwnd W) 0 (x1 saved) (y1 saved)
                  (rect_width saved) (rect_height saved)
                  (if isValid saved then SWP_FRAMECHANGED OR SWP_NOZORDER OR SWP_NOACTIVATE
                   else (SWP_FRAMECHANGED OR SWP_NOZORDER OR SWP_NOACTIVATE)
                        OR (SWP_NOSIZE OR SWP_NOMOVE))]
             @ (if isVisible W1
                then [ShowWindow (m_data_hwnd W)
                        (if S = WindowMaximized then SW_MAXIMIZE else SW_SHOWNA)]
                else [])"
  shows "m_savedStyle W1 = style W \<and> m_savedFrameGeometry W1 = saved
       \<and> m_windowState W1 = WindowFullScreen
       \<and> calls W1 = calls W @ entering
       \<and> native W1 = foldl (\<lambda>n c. os e c n) (native W) entering
       \<and> calls W2 = calls W1 @ leaving
       \<and> native W2 = foldl (\<lambda>n c. os e c n) (native W1) leaving
       \<and> m_windowState W2 = S
       \<and> m_savedStyle W2 = 0 \<and> m_savedFrameGeometry W2 = QRect_null"
proof -
  define old where "old = m_windowState W"
  define W0 where "W0 = setFlag FrameDirty W"
  define E where "E = enterFullScreen e old (isVisible W) W0"
  have w0: "calls W0 = calls W" "native W0 = native W" "m_data_hwnd W0 = m_data_hwnd W"
           "window W0 = window W" "m_savedStyle W0 = 0"
           "testFlag HasBorderInFullScreen W0 = testFlag HasBorderInFullScreen W"
    using none by (simp_all add: W0_def setFlag_fields setFlag_more testFlag_setFlag)
  have rd: "style W0 = style W" "normalFrameGeometry e W0 = normalFrameGeometry e W"
           "frameGeometry_sys e W0 = frameGeometry_sys e W" "m_savedFrameGeometry W0 = QRect_null"
    using none by (simp_all add: W0_def geometry_reads setFlag_fields)
  have sv: "m_savedStyle (saveStyleAndGeometry e old W0) = style W"
           "m_savedFrameGeometry (saveStyleAndGeometry e old W0) = saved"
    by (simp_all add: saveStyleAndGeometry_saves [OF w0(5)] rd saved old_def)
  have sys1: "setWindowState_sys e WindowFullScreen W
                = toggleMinimized e old WindowFullScreen (isVisible W) E"
    using start by (simp add: setWindowState_sys_def Let_def old_def E_def W0_def)
  have w1: "W1 = (toggleMinimized e old WindowFullScreen (isVisible W) E)
                    \<lparr>m_windowState := WindowFullScreen\<rparr>"
    unfolding W1 using hwnd by (simp add: setWindowState_def sys1)
  have fs': "(((WS_CLIPCHILDREN OR WS_CLIPSIBLINGS OR WS_POPUP)
                    OR (if m_savedStyle (saveStyleAndGeometry e old W0) AND WS_SYSMENU \<noteq> 0
                        then WS_SYSMENU else 0))
                    OR (if isVisible W then WS_VISIBLE else 0))
                    OR (if testFlag HasBorderInFullScreen W0 then WS_BORDER else 0) = fs"
    unfolding fs sv w0 by (rule refl)
  have r': "(case (case w_screen (window W0) of Some g \<Rightarrow> Some g | None \<Rightarrow> primaryScreen e) of
                  Some g \<Rightarrow> toNativePixels e g
                | None \<Rightarrow> m_savedFrameGeometry (saveStyleAndGeometry e old W0)) = r"
    unfolding r sv w0 by (rule refl)
  define c2 where "c2 = [SetWindowLongPtr (m_data_hwnd W) GWL_STYLE fs,
              SetWindowPos (m_data_hwnd W) HWND_TOP (x1 r) (y1 r) (rect_width r) (rect_height r)
                (SWP_FRAMECHANGED OR SWP_NOACTIVATE)]"
  define c3 where "c3 = (if m_windowState W = WindowMinimized \<and> isVisible W
                then [ShowWindow (m_data_hwnd W) SW_SHOWNORMAL] else [])"
  have ent: "entering = c2 @ c3"
    unfolding entering c2_def c3_def by (rule refl)
  have c2': "c2 = [SetWindowLongPtr (m_data_hwnd W0) GWL_STYLE fs,
              SetWindowPos (m_data_hwnd W0) HWND_TOP (x1 r) (y1 r) (rect_width r) (rect_height r)
                (SWP_FRAMECHANGED OR SWP_NOACTIVATE)]"
    by (simp add: c2_def w0)
  have eE: "calls E = calls W @ c2" "native E = foldl (\<lambda>n c. os e c n) (native W) c2"
    using enterFullScreen_log [where e = e and old = old and W = W0 and vis = "isVisible W",
            OF fs' [symmetric] r' [symmetric] c2']
    by (simp_all add: E_def w0)
  have hE: "m_data_hwnd E = m_data_hwnd W"
    by (simp add: E_def enterFullScreen_fields w0)
  have tm: "calls (toggleMinimized e old WindowFullScreen (isVisible W) E) = calls E @ c3"
           "native (toggleMinimized e old WindowFullScreen (isVisible W) E)
              = foldl (\<lambda>n c. os e c n) (native E) c3"
    by (simp_all add: toggleMinimized_log hE c3_def old_def)
  have cW1: "calls W1 = calls W @ entering"
    by (simp add: w1 tm eE ent)
  have nW1: "native W1 = foldl (\<lambda>n c. os e c n) (native W) entering"
    by (simp add: w1 tm eE ent)
  have s1: "m_savedStyle W1 = style W"
    by (simp add: w1 toggleMinimized_fields E_def enterFullScreen_fields sv)
  have g1: "m_savedFrameGeometry W1 = saved"
    by (simp add: w1 toggleMinimized_fields E_def enterFullScreen_fields sv)
  have h1: "m_data_hwnd W1 = m_data_hwnd W"
    unfolding W1 by (rule setWindowState_hwnd)
  have st1: "m_windowState W1 = WindowFullScreen"
    by (simp add: w1)
  define V where "V = setFlag FrameDirty W1"
  have v: "calls V = calls W1" "native V = native W1" "m_data_hwnd V = m_data_hwnd W"
          "m_savedStyle V = style W" "m_savedFrameGeometry V = saved" "style V = style W1"
    by (simp_all add: V_def setFlag_fields setFlag_more geometry_reads h1 s1 g1)
  have sys2: "setWindowState_sys e S W1 = leaveFullScreen e S (isVisible W1) V"
    using st1 S by (simp add: setWindowState_sys_def Let_def toggleMinimized_same V_def)
  have w2: "W2 = (leaveFullScreen e S (isVisible W1) V)\<lparr>m_windowState := S\<rparr>"
    unfolding W2 using hwnd h1 by (simp add: setWindowState_def sys2)
  have st': "(if isVisible W1
               then (if m_savedStyle V \<noteq> 0 then m_savedStyle V else style V) OR WS_VISIBLE
               else (if m_savedStyle V \<noteq> 0 then m_savedStyle V else style V)) = st"
    unfolding st v using nz by simp
  have wv: "windowVisibility_sys
              (V\<lparr>native := os e (SetWindowLongPtr (m_data_hwnd W) GWL_STYLE st) (native W1)\<rparr>)
            = windowVisibility_sys
              (W1\<lparr>native := os e (SetWindowLongPtr (m_data_hwnd W) GWL_STYLE st) (native W1)\<rparr>)"
    by (rule windowVisibility_sys_native) simp
  have lv': "leaving =
             [SetWindowLongPtr (m_data_hwnd V) GWL_STYLE st]
             @ (if windowVisibility_sys
                     (V\<lparr>native := os e (SetWindowLongPtr (m_data_hwnd V) GWL_STYLE st) (native V)\<rparr>)
                   = Maximized
                then [ShowWindow (m_data_hwnd V) SW_SHOWNOACTIVATE] else [])
             @ [SetWindowPos (m_data_hwnd V) 0
                  (x1 (m_savedFrameGeometry V)) (y1 (m_savedFrameGeometry V))
                  (rect_width (m_savedFrameGeometry V)) (rect_height (m_savedFrameGeometry V))
                  (if isValid (m_savedFrameGeometry V)
                   then SWP_FRAMECHANGED OR SWP_NOZORDER OR SWP_NOACTIVATE
                   else (SWP_FRAMECHANGED OR SWP_NOZORDER OR SWP_NOACTIVATE)
                        OR (SWP_NOSIZE OR SWP_NOMOVE))]
             @ (if isVisible W1
                then [ShowWindow (m_data_hwnd V)
                        (if S = WindowMaximized then SW_MAXIMIZE else SW_SHOWNA)]
                else [])"
    unfolding v wv leaving by (rule refl)
  have lv: "calls (leaveFullScreen e S (isVisible W1) V) = calls W1 @ leaving"
           "native (leaveFullScreen e S (isVisible W1) V)
              = foldl (\<lambda>n c. os e c n) (native W1) leaving"
    using leaveFullScreen_log [where e = e and new = S and W = V and vis = "isVisible W1",
            OF st' [symmetric] refl lv']
    by (simp_all add: v)
  have cW2: "calls W2 = calls W1 @ leaving" by (simp add: w2 lv)
  have nW2: "native W2 = foldl (\<lambda>n c. os e c n) (native W1) leaving" by (simp add: w2 lv)
  have st2: "m_windowState W2 = S" by (simp add: w2)
  have cl: "m_savedStyle W2 = 0" "m_savedFrameGeometry W2 = QRect_null"
    by (simp_all add: w2 leaveFullScreen_fields)
  from s1 g1 st1 cW1 nW1 cW2 nW2 st2 cl show ?thesis by blast
qed

theorem fullscreen_round_trip_witness:
  "calls (setWindowState example_env WindowNoState
            (setWindowState example_env WindowFullScreen example_world))
     = [SetWindowLongPtr 7 GWL_STYLE 0x96080000,
        SetWindowPos 7 0 0 0 1920 1080 0x30,
        SetWindowLongPtr 7 GWL_STYLE 0x16CF0000,
        SetWindowPos 7 0 100 100 640 480 0x34,
        ShowWindow 7 8]
   \<and> gwl_style
       (native (setWindowState example_env WindowNoState
                  (setWindowState example_env WindowFullScreen example_world)))
       = gwl_style (native example_world)
   \<and> windowRect
       (native (setWindowState example_env WindowNoState
                  (setWindowState example_env WindowFullScreen example_world)))
       = windowRect (native example_world)
   \<and> m_savedStyle (setWindowState example_env WindowFullScreen example_world) = 0x16CF0000
   \<and> m_savedFrameGeometry (setWindowState example_env WindowFullScreen example_world)
       = QRect_xywh 100 100 640 480
   \<and> m_savedStyle
       (setWindowState example_env WindowNoState
          (setWindowState example_env WindowFullScreen example_world)) = 0
   \<and> calls (setWindowState example_env WindowMaximized
              (setWindowState example_env WindowFullScreen example_maximized))
     = [SetWindowLongPtr 7 GWL_STYLE 0x96080000,
        SetWindowPos 7 0 0 0 1920 1080 0x30,
        SetWindowLongPtr 7 GWL_STYLE 0x16CF0000,
        ShowWindow 7 4,
        SetWindowPos 7 0 100 100 640 480 0x34,
        ShowWindow 7 3]"
proof -
  let ?W1 = "setWindowState example_env WindowFullScreen example_world"
  let ?M1 = "setWindowState example_env WindowFullScreen example_maximized"
  have a: "m_data_hwnd example_world \<noteq> 0" by code_simp
  have b: "m_savedStyle example_world = 0" by code_simp
  have c: "m_savedFrameGeometry example_world = QRect_null" by code_simp
  have d: "m_windowState example_world \<noteq> WindowFullScreen" by code_simp
  have f: "style example_world \<noteq> 0" by code_simp
  have g: "WindowNoState \<noteq> WindowMinimized" "WindowNoState \<noteq> WindowFullScreen" by simp_all
  have sv: "QRect_xywh 100 100 640 480 =
           (if m_windowState example_world = WindowMinimized
               \<or> m_windowState example_world = WindowMaximized then
              (if isValid (normalFrameGeometry example_env example_world)
               then normalFrameGeometry example_env example_world else QRect_null)
            else frameGeometry_sys example_env example_world)"
    by code_simp
  have fs: "0x96080000 = (((WS_CLIPCHILDREN OR WS_CLIPSIBLINGS OR WS_POPUP)
                    OR (if style example_world AND WS_SYSMENU \<noteq> 0 then WS_SYSMENU else 0))
                    OR (if isVisible example_world then WS_VISIBLE else 0))
                    OR (if testFlag HasBorderInFullScreen example_world then WS_BORDER else 0)"
    by code_simp
  have r: "QRect_xywh 0 0 1920 1080 =
             (case (case w_screen (window example_world) of Some g \<Rightarrow> Some g
                    | None \<Rightarrow> primaryScreen example_env) of
                  Some g \<Rightarrow> toNativePixels example_env g
                | None \<Rightarrow> QRect_xywh 100 100 640 480)"
    by code_simp
  have en: "[SetWindowLongPtr 7 GWL_STYLE 0x96080000, SetWindowPos 7 0 0 0 1920 1080 0x30] =
             [SetWindowLongPtr (m_data_hwnd example_world) GWL_STYLE 0x96080000,
              SetWindowPos (m_data_hwnd example_world) HWND_TOP
                (x1 (QRect_xywh 0 0 1920 1080)) (y1 (QRect_xywh 0 0 1920 1080))
                (rect_width (QRect_xywh 0 0 1920 1080)) (rect_height (QRect_xywh 0 0 1920 1080))
                (SWP_FRAMECHANGED OR SWP_NOACTIVATE)]
             @ (if m_windowState example_world = WindowMinimized \<and> isVisible example_world
                then [ShowWindow (m_data_hwnd example_world) SW_SHOWNORMAL] else [])"
    by code_simp
  have st: "0x16CF0000 = (if isVisible ?W1 then style example_world OR WS_VISIBLE
                          else style example_world)"
    by code_simp
  have lv: "[SetWindowLongPtr 7 GWL_STYLE 0x16CF0000, SetWindowPos 7 0 100 100 640 480 0x34,
             ShowWindow 7 8] =
             [SetWindowLongPtr (m_data_hwnd example_world) GWL_STYLE 0x16CF0000]
             @ (if windowVisibility_sys
                     (?W1\<lparr>native := os example_env
                        (SetWindowLongPtr (m_data_hwnd example_world) GWL_STYLE 0x16CF0000)
                        (native ?W1)\<rparr>)
                   = Maximized
                then [ShowWindow (m_data_hwnd example_world) SW_SHOWNOACTIVATE] else [])
             @ [SetWindowPos (m_data_hwnd example_world) 0
                  (x1 (QRect_xywh 100 100 640 480)) (y1 (QRect_xywh 100 100 640 480))
                  (rect_width (QRect_xywh 100 100 640 480))
                  (rect_height (QRect_xywh 100 100 640 480))
                  (if isValid (QRect_xywh 100 100 640 480)
                   then SWP_FRAMECHANGED OR SWP_NOZORDER OR SWP_NOACTIVATE
                   else (SWP_FRAMECHANGED OR SWP_NOZORDER OR SWP_NOACTIVATE)
                        OR (SWP_NOSIZE OR SWP_NOMOVE))]
             @ (if isVisible ?W1
                then [ShowWindow (m_data_hwnd example_world)
                        (if WindowNoState = WindowMaximized then SW_MAXIMIZE else SW_SHOWNA)]
                else [])"
    by code_simp
  have c0: "calls example_world = []" "calls example_maximized = []"
           "style example_world = 0x16CF0000"
    by code_simp+
  have nt: "gwl_style
              (foldl (\<lambda>n c. os example_env c n)
                 (foldl (\<lambda>n c. os example_env c n) (native example_world)
                    [SetWindowLongPtr 7 GWL_STYLE 0x96080000,
                     SetWindowPos 7 0 0 0 1920 1080 0x30])
                 [SetWindowLongPtr 7 GWL_STYLE 0x16CF0000,
                  SetWindowPos 7 0 100 100 640 480 0x34, ShowWindow 7 8])
              = gwl_style (native example_world)
          \<and> windowRect
              (foldl (\<lambda>n c. os example_env c n)
                 (foldl (\<lambda>n c. os example_env c n) (native example_world)
                    [SetWindowLongPtr 7 GWL_STYLE 0x96080000,
                     SetWindowPos 7 0 0 0 1920 1080 0x30])
                 [SetWindowLongPtr 7 GWL_STYLE 0x16CF0000,
                  SetWindowPos 7 0 100 100 640 480 0x34, ShowWindow 7 8])
              = windowRect (native example_world)"
    by code_simp
  have a': "m_data_hwnd example_maximized \<noteq> 0" by code_simp
  have b': "m_savedStyle example_maximized = 0" by code_simp
  have c': "m_savedFrameGeometry example_maximized = QRect_null" by code_simp
  have d': "m_windowState example_maximized \<noteq> WindowFullScreen" by code_simp
  have f': "style example_maximized \<noteq> 0" by code_simp
  have g': "WindowMaximized \<noteq> WindowMinimized" "WindowMaximized \<noteq> WindowFullScreen"
    by simp_all
  have sv': "QRect_xywh 100 100 640 480 =
           (if m_windowState example_maximized = WindowMinimized
               \<or> m_windowState example_maximized = WindowMaximized then
              (if isValid (normalFrameGeometry example_env example_maximized)
               then normalFrameGeometry example_env example_maximized else QRect_null)
            else frameGeometry_sys example_env example_maximized)"
    by code_simp
  have fs': "0x96080000 = (((WS_CLIPCHILDREN OR WS_CLIPSIBLINGS OR WS_POPUP)
                    OR (if style example_maximized AND WS_SYSMENU \<noteq> 0 then WS_SYSMENU else 0))
                    OR (if isVisible example_maximized then WS_VISIBLE else 0))
                    OR (if testFlag HasBorderInFullScreen example_maximized
                        then WS_BORDER else 0)"
    by code_simp
  have r': "QRect_xywh 0 0 1920 1080 =
             (case (case w_screen (window example_maximized) of Some g \<Rightarrow> Some g
                    | None \<Rightarrow> primaryScreen example_env) of
                  Some g \<Rightarrow> toNativePixels example_env g
                | None \<Rightarrow> QRect_xywh 100 100 640 480)"
    by code_simp
  have en': "[SetWindowLongPtr 7 GWL_STYLE 0x96080000, SetWindowPos 7 0 0 0 1920 1080 0x30] =
             [SetWindowLongPtr (m_data_hwnd example_maximized) GWL_STYLE 0x96080000,
              SetWindowPos (m_data_hwnd example_maximized) HWND_TOP
                (x1 (QRect_xywh 0 0 1920 1080)) (y1 (QRect_xywh 0 0 1920 1080))
                (rect_width (QRect_xywh 0 0 1920 1080)) (rect_height (QRect_xywh 0 0 1920 1080))
                (SWP_FRAMECHANGED OR SWP_NOACTIVATE)]
             @ (if m_windowState example_maximized = WindowMinimized
                   \<and> isVisible example_maximized
                then [ShowWindow (m_data_hwnd example_maximized) SW_SHOWNORMAL] else [])"
    by code_simp
  have st': "0x16CF0000 = (if isVisible ?M1 then style example_maximized OR WS_VISIBLE
                          else style example_maximized)"
    by code_simp
  have lv': "[SetWindowLongPtr 7 GWL_STYLE 0x16CF0000, ShowWindow 7 4,
              SetWindowPos 7 0 100 100 640 480 0x34, ShowWindow 7 3] =
             [SetWindowLongPtr (m_data_hwnd example_maximized) GWL_STYLE 0x16CF0000]
             @ (if windowVisibility_sys
                     (?M1\<lparr>native := os example_env
                        (SetWindowLongPtr (m_data_hwnd example_maximized) GWL_STYLE 0x16CF0000)
                        (native ?M1)\<rparr>)
                   = Maximized
                then [ShowWindow (m_data_hwnd example_maximized) SW_SHOWNOACTIVATE] else [])
             @ [SetWindowPos (m_data_hwnd example_maximized) 0
                  (x1 (QRect_xywh 100 100 640 480)) (y1 (QRect_xywh 100 100 640 480))
                  (rect_width (QRect_xywh 100 100 640 480))
                  (rect_height (QRect_xywh 100 100 640 480))
                  (if isValid (QRect_xywh 100 100 640 480)
                   then SWP_FRAMECHANGED OR SWP_NOZORDER OR SWP_NOACTIVATE
                   else (SWP_FRAMECHANGED OR SWP_NOZORDER OR SWP_NOACTIVATE)
                        OR (SWP_NOSIZE OR SWP_NOMOVE))]
             @ (if isVisible ?M1
                then [ShowWindow (m_data_hwnd example_maximized)
                        (if WindowMaximized = WindowMaximized then SW_MAXIMIZE else SW_SHOWNA)]
                else [])"
    by code_simp
  show ?thesis
    using fullscreen_round_trip [OF a b c d f g refl refl sv fs r en st lv]
          fullscreen_round_trip [OF a' b' c' d' f' g' refl refl sv' fs' r' en' st' lv']
          c0 nt
    by simp
qed

theorem fullscreen_round_trip_counterexample:
  "m_savedStyle example_world = 0
   \<and> m_savedStyle
       (setWindowState example_env WindowFullScreen
          (setWindowState example_env WindowFullScreen example_world)) = 0x16CF0000
   \<and> m_savedStyle example_maximized = 0
   \<and> frameGeometry_sys example_env example_maximized = QRect_xywh (- 8) (- 8) 1936 1056
   \<and> calls (setWindowState example_env WindowNoState
              (setWindowState example_env WindowFullScreen example_maximized))
       = [SetWindowLongPtr 7 GWL_STYLE 0x96080000,
          SetWindowPos 7 0 0 0 1920 1080 0x30,
          SetWindowLongPtr 7 GWL_STYLE 0x16CF0000,
          ShowWindow 7 4,
          SetWindowPos 7 0 100 100 640 480 0x34,
          ShowWindow 7 8]
   \<and> frameGeometry_sys example_env
       (setWindowState example_env WindowNoState
          (setWindowState example_env WindowFullScreen example_maximized))
       = QRect_xywh 100 100 640 480"
  by code_simp

subsection \<open>Showing a window maximized\<close>

text \<open>
  C4 (as amended). For a top-level window in the maximized state whose flags have the
  title hint and neither a minimize or maximize button hint nor the frameless hint,
  \<open>show_sys\<close> issues, after \<open>updateTransientParent\<close>, exactly these calls: it writes the
  style it read with \<open>WS_MAXIMIZEBOX\<close> (bit 16) added, calls \<open>ShowWindow\<close>, writes the style
  it then reads back with that bit removed, and calls \<open>SetWindowPos\<close> with
  \<open>SWP_FRAMECHANGED\<close>. The show command is \<open>SW_SHOWMAXIMIZED\<close>, except for popup, tooltip
  and tool windows and windows shown without activating, where it is \<open>SW_SHOWNOACTIVATE\<close>.
  Each of the two writes changes no other bit of what was read, so every style bit other
  than \<open>WS_MAXIMIZEBOX\<close> that the show command itself left alone is written back with its
  original value.
\<close>

theorem show_sys_maximize_box:
  assumes "w_isTopLevel (window W)"
      and "w_windowState (window W) = WindowMaximized"
      and "w_flags (window W) AND Qt_WindowTitleHint \<noteq> 0"
      and "w_flags (window W) AND (Qt_WindowMinMaxButtonsHint OR Qt_FramelessWindowHint) = 0"
      and "Wt = updateTransientParent e W"
      and "sm = (if w_type (window W) = Qt_Popup \<or> w_type (window W) = Qt_ToolTip
                    \<or> w_type (window W) = Qt_Tool \<or> testShowWithoutActivating (window W)
                 then SW_SHOWNOACTIVATE else SW_SHOWMAXIMIZED)"
      and "s0 = style Wt"
      and "s1 = gwl_style (os e (ShowWindow (m_data_hwnd W) sm)
                   (os e (SetWindowLongPtr (m_data_hwnd W) GWL_STYLE (s0 OR WS_MAXIMIZEBOX))
                      (native Wt)))"
  shows "calls (show_sys e W) =
           calls Wt
           @ [SetWindowLongPtr (m_data_hwnd W) GWL_STYLE (s0 OR WS_MAXIMIZEBOX),
              ShowWindow (m_data_hwnd W) sm,
              SetWindowLongPtr (m_data_hwnd W) GWL_STYLE (s1 AND NOT WS_MAXIMIZEBOX),
              SetWindowPos (m_data_hwnd W) 0 0 0 0 0
                (SWP_NOACTIVATE OR SWP_NOMOVE OR SWP_NOSIZE OR SWP_NOZORDER
                 OR SWP_NOOWNERZORDER OR SWP_FRAMECHANGED)]
       \<and> bit (s0 OR WS_MAXIMIZEBOX) 16
       \<and> \<not> bit (s1 AND NOT WS_MAXIMIZEBOX) 16
       \<and> (\<forall>i. i \<noteq> 16 \<longrightarrow> bit (s0 OR WS_MAXIMIZEBOX) i = bit s0 i)
       \<and> (\<forall>i. i \<noteq> 16 \<longrightarrow> bit (s1 AND NOT WS_MAXIMIZEBOX) i = bit s1 i)
       \<and> (\<forall>i. i \<noteq> 16 \<longrightarrow> bit s1 i = bit (s0 OR WS_MAXIMIZEBOX) i \<longrightarrow>
              bit (s1 AND NOT WS_MAXIMIZEBOX) i = bit s0 i)"
proof -
  have tl: "show_sys_topLevel e W =
              (SW_SHOWMAXIMIZED, True, setStyle e (s0 OR WS_MAXIMIZEBOX) Wt)"
    using assms(1-4) unfolding assms(5,7) by (rule show_sys_topLevel_faked)
  have h: "m_data_hwnd Wt = m_data_hwnd W"
    unfolding assms(5) by (simp add: updateTransientParent_fields)
  have c: "calls (show_sys e W) =
           calls Wt
           @ [SetWindowLongPtr (m_data_hwnd W) GWL_STYLE (s0 OR WS_MAXIMIZEBOX),
              ShowWindow (m_data_hwnd W) sm,
              SetWindowLongPtr (m_data_hwnd W) GWL_STYLE (s1 AND NOT WS_MAXIMIZEBOX),
              SetWindowPos (m_data_hwnd W) 0 0 0 0 0
                (SWP_NOACTIVATE OR SWP_NOMOVE OR SWP_NOSIZE OR SWP_NOZORDER
                 OR SWP_NOOWNERZORDER OR SWP_FRAMECHANGED)]"
    using assms(2) h
    by (simp add: show_sys_def tl Let_def assms(6,8) setStyle_def prim_defs style_def)
  from c add_remove_bits(1,2) [where a = s0] add_remove_bits(3,4) [where b = s1] show ?thesis
    by simp
qed

theorem show_sys_maximize_box_witness:
  "calls (show_sys example_env example_noMaxButton) =
     [SetWindowLongPtr 7 GWL_STYLE 0x06CD0000, ShowWindow 7 3,
      SetWindowLongPtr 7 GWL_STYLE 0x16CC0000, SetWindowPos 7 0 0 0 0 0 0x237]
   \<and> bit (0x16CC0000 :: DWORD) 18 = bit (0x06CC0000 :: DWORD) 18"
proof -
  have a: "w_isTopLevel (window example_noMaxButton)" by code_simp
  have b: "w_windowState (window example_noMaxButton) = WindowMaximized" by code_simp
  have c: "w_flags (window example_noMaxButton) AND Qt_WindowTitleHint \<noteq> 0" by code_simp
  have d: "w_flags (window example_noMaxButton)
             AND (Qt_WindowMinMaxButtonsHint OR Qt_FramelessWindowHint) = 0" by code_simp
  have v: "calls (updateTransientParent example_env example_noMaxButton) = []
         \<and> m_data_hwnd example_noMaxButton = 7
         \<and> style (updateTransientParent example_env example_noMaxButton) = 0x06CC0000
         \<and> (if w_type (window example_noMaxButton) = Qt_Popup
                \<or> w_type (window example_noMaxButton) = Qt_ToolTip
                \<or> w_type (window example_noMaxButton) = Qt_Tool
                \<or> testShowWithoutActivating (window example_noMaxButton)
             then SW_SHOWNOACTIVATE else SW_SHOWMAXIMIZED) = 3
         \<and> gwl_style (os example_env (ShowWindow 7 3)
               (os example_env (SetWindowLongPtr 7 GWL_STYLE (0x06CC0000 OR WS_MAXIMIZEBOX))
                  (native (updateTransientParent example_env example_noMaxButton))))
             = 0x16CD0000"
    by code_simp
  have n: "(18 :: nat) \<noteq> 16" by simp
  show ?thesis
    using show_sys_maximize_box [OF a b c d refl refl refl refl, of example_env] v n
    by (simp add: WS_MAXIMIZEBOX_def SWP_NOACTIVATE_def SWP_NOMOVE_def SWP_NOSIZE_def
        SWP_NOZORDER_def SWP_NOOWNERZORDER_def SWP_FRAMECHANGED_def)
qed

theorem show_sys_maximize_box_counterexample:
  "w_isTopLevel (window example_tool)
   \<and> w_windowState (window example_tool) = WindowMaximized
   \<and> w_flags (window example_tool) AND Qt_WindowTitleHint \<noteq> 0
   \<and> w_flags (window example_tool) AND (Qt_WindowMinMaxButtonsHint OR Qt_FramelessWindowHint) = 0
   \<and> calls (show_sys example_env example_tool) =
       [SetWindowLongPtr 7 GWL_STYLE 0x06CD0000, ShowWindow 7 SW_SHOWNOACTIVATE,
        SetWindowLongPtr 7 GWL_STYLE 0x16CC0000, SetWindowPos 7 0 0 0 0 0 0x237]
   \<and> SW_SHOWNOACTIVATE \<noteq> SW_SHOWMAXIMIZED"
  by code_simp

subsection \<open>Geometry changes\<close>

text \<open>
  C5 (as amended). For an exposed window that is not an OpenGL ES2 window, when
  \<open>handleGeometryChange\<close> computes a new geometry (it is not within \<open>setStyle\<close>): if the
  size differs from the previous one and neither width nor height grew, exactly one
  expose event is added, for the rectangle \<open>(0, 0, newWidth, newHeight)\<close>; if the width or
  the height grew, or the size is unchanged, no expose event is added.
\<close>

theorem shrink_triggers_expose:
  assumes "\<not> testFlag WithinSetStyle W"
      and "isExposed W"
      and "\<not> testFlag OpenGL_ES2 W"
      and "g = fst (geometry_sys e W)"
      and "prev = m_data_geometry W"
  shows "(rect_size g \<noteq> rect_size prev
            \<and> rect_width g \<le> rect_width prev \<and> rect_height g \<le> rect_height prev \<longrightarrow>
          filter isExposeEvent (events (handleGeometryChange e W))
            = filter isExposeEvent (events W)
              @ [handleExposeEvent (QRegion_of (QRect_xywh 0 0 (rect_width g) (rect_height g)))])
       \<and> (rect_width g > rect_width prev \<or> rect_height g > rect_height prev
            \<or> rect_size g = rect_size prev \<longrightarrow>
          filter isExposeEvent (events (handleGeometryChange e W))
            = filter isExposeEvent (events W))"
proof -
  have r: "QRect_of \<lparr>px = 0, py = 0\<rparr> (rect_size g)
             = QRect_xywh 0 0 (rect_width g) (rect_height g)"
    by (simp add: QRect_of_def QRect_xywh_def rect_size_def)
  show ?thesis
    unfolding handleGeometryChange_events [OF assms(1)]
    using assms(2,3) r by (auto simp: assms(4,5))
qed

theorem shrink_triggers_expose_witness:
  "filter isExposeEvent
     (events (handleGeometryChange example_env
                (example_world\<lparr>m_data_geometry := QRect_xywh 108 131 700 500\<rparr>)))
     = [handleExposeEvent [QRect_xywh 0 0 624 441]]
   \<and> filter isExposeEvent
       (events (handleGeometryChange example_env
                  (example_world\<lparr>m_data_geometry := QRect_xywh 108 131 600 441\<rparr>)))
       = []"
proof -
  let ?A = "example_world\<lparr>m_data_geometry := QRect_xywh 108 131 700 500\<rparr>"
  let ?B = "example_world\<lparr>m_data_geometry := QRect_xywh 108 131 600 441\<rparr>"
  have a: "\<not> testFlag WithinSetStyle ?A" "isExposed ?A" "\<not> testFlag OpenGL_ES2 ?A"
    by code_simp+
  have b: "\<not> testFlag WithinSetStyle ?B" "isExposed ?B" "\<not> testFlag OpenGL_ES2 ?B"
    by code_simp+
  have v: "fst (geometry_sys example_env ?A) = QRect_xywh 108 131 624 441
         \<and> fst (geometry_sys example_env ?B) = QRect_xywh 108 131 624 441
         \<and> events ?A = [] \<and> events ?B = []
         \<and> m_data_geometry ?A = QRect_xywh 108 131 700 500
         \<and> m_data_geometry ?B = QRect_xywh 108 131 600 441
         \<and> QRegion_of (QRect_xywh 0 0 624 441) = [QRect_xywh 0 0 624 441]"
    by code_simp
  show ?thesis
    using shrink_triggers_expose [OF a refl refl, of example_env]
          shrink_triggers_expose [OF b refl refl, of example_env] v
    by (simp add: QRect_xywh_def rect_width_def rect_height_def rect_size_def)
qed

theorem shrink_triggers_expose_counterexample:
  "isExposed (example_world\<lparr>m_flags := {Exposed, OpenGL_ES2},
                            m_data_geometry := QRect_xywh 108 131 700 500\<rparr>)
   \<and> rect_size (m_data_geometry
        (example_world\<lparr>m_flags := {Exposed, OpenGL_ES2},
                        m_data_geometry := QRect_xywh 108 131 700 500\<rparr>))
       = \<lparr>width = 700, height = 500\<rparr>
   \<and> rect_size (m_data_geometry
        (handleGeometryChange example_env
           (example_world\<lparr>m_flags := {Exposed, OpenGL_ES2},
                           m_data_geometry := QRect_xywh 108 131 700 500\<rparr>)))
       = \<lparr>width = 624, height = 441\<rparr>
   \<and> events
       (handleGeometryChange example_env
          (example_world\<lparr>m_flags := {Exposed, OpenGL_ES2},
                          m_data_geometry := QRect_xywh 108 131 700 500\<rparr>))
       = [handleGeometryChange_event (QRect_xywh 108 131 624 441)]"
  by code_simp

subsection \<open>Operations on a window without a native handle\<close>

text \<open>
  C9 (as amended). For a window whose native handle is null, none of the seven operations
  changes the native window (no entry in the log of native calls) or fails.
  \<open>setWindowState\<close>, \<open>setVisible\<close> and \<open>setWindowIcon\<close> change nothing at all and log
  nothing. \<open>setMouseGrabEnabled\<close> and \<open>setKeyboardGrabEnabled\<close> log a ``No handle''
  warning, return false and change nothing else. \<open>setOpacity\<close> logs nothing and only
  records the new opacity, when it differs from the current one. \<open>setGeometry\<close> leaves the
  native window, the window state and the saved record alone and records a geometry in the
  base class (and in \<open>m_data.geometry\<close> when the window is minimized). When the position
  does not include the frame, the geometry recorded is the requested one and that is all it
  does. When the position includes the frame, \<open>frameMargins\<close> runs before the handle is
  tested: the geometry recorded is the requested one moved by the left and top frame and
  custom margins, and when the frame is dirty the frame is recomputed, cached in
  \<open>m_data.frame\<close> and the dirty flag cleared; for a window that is not frameless that
  means reading the two style words through the null handle and calling
  \<open>AdjustWindowRectEx\<close>, with a warning logged when that call fails.
\<close>

theorem no_handle_operations:
  assumes hwnd: "m_data_hwnd W = 0"
      and fr: "fr = (if \<not> testFlag FrameDirty W then m_data_frame W
                 else if m_data_flags W AND Qt_FramelessWindowHint \<noteq> 0 then QMargins_zero
                 else (case adjustWindowRectEx e
                              \<lparr>RECT_left = 0, RECT_top = 0, RECT_right = 0, RECT_bottom = 0\<rparr>
                              (style W AND NOT WS_OVERLAPPED) False (exStyle W) of
                         Some rc \<Rightarrow> \<lparr>margin_left = \<bar>RECT_left rc\<bar>, margin_top = \<bar>RECT_top rc\<bar>,
                                     margin_right = \<bar>RECT_right rc\<bar>,
                                     margin_bottom = \<bar>RECT_bottom rc\<bar>\<rparr>
                       | None \<Rightarrow> QMargins_zero))"
      and W0: "W0 = (if w_positionIncludesFrame (window W) \<and> testFlag FrameDirty W then
                   (if m_data_flags W AND Qt_FramelessWindowHint = 0
                       \<and> adjustWindowRectEx e
                              \<lparr>RECT_left = 0, RECT_top = 0, RECT_right = 0, RECT_bottom = 0\<rparr>
                              (style W AND NOT WS_OVERLAPPED) False (exStyle W) = None
                    then W\<lparr>warnings := warnings W @ [''frame: AdjustWindowRectEx failed'']\<rparr>
                    else W)
                     \<lparr>m_data_frame := fr, m_flags := m_flags W - {FrameDirty}\<rparr>
                 else W)"
      and r: "r = (if w_positionIncludesFrame (window W) then
                 moveTopLeft rect
                   (QPoint_plus (topLeft rect)
                      \<lparr>px = margin_left fr + margin_left (m_data_customMargins W),
                       py = margin_top fr + margin_top (m_data_customMargins W)\<rparr>)
               else rect)"
  shows "setWindowState e s W = W
       \<and> setVisible e v W = W
       \<and> setWindowIcon e icon W = W
       \<and> setMouseGrabEnabled e grab W
           = (False, W\<lparr>warnings := warnings W @ [''setMouseGrabEnabled: No handle'']\<rparr>)
       \<and> setKeyboardGrabEnabled grab W
           = (False, W\<lparr>warnings := warnings W @ [''setKeyboardGrabEnabled: No handle'']\<rparr>)
       \<and> setOpacity e level W
           = (if qFuzzyCompare e (m_opacity W) level then W else W\<lparr>m_opacity := level\<rparr>)
       \<and> calls (setGeometry e rect W) = calls W
       \<and> native (setGeometry e rect W) = native W
       \<and> m_data_hwnd (setGeometry e rect W) = 0
       \<and> m_windowState (setGeometry e rect W) = m_windowState W
       \<and> m_savedStyle (setGeometry e rect W) = m_savedStyle W
       \<and> m_savedFrameGeometry (setGeometry e rect W) = m_savedFrameGeometry W
       \<and> setGeometry e rect W =
           (if m_windowState W = WindowMinimized then W0\<lparr>m_data_geometry := r\<rparr> else W0)
             \<lparr>platformWindow_geometry := r\<rparr>"
proof -
  have a: "setWindowState e s W = W \<and> setVisible e v W = W \<and> setWindowIcon e icon W = W"
    using hwnd by (simp add: setWindowState_def setVisible_def setWindowIcon_def)
  have b: "setMouseGrabEnabled e grab W
             = (False, W\<lparr>warnings := warnings W @ [''setMouseGrabEnabled: No handle'']\<rparr>)
         \<and> setKeyboardGrabEnabled grab W
             = (False, W\<lparr>warnings := warnings W @ [''setKeyboardGrabEnabled: No handle'']\<rparr>)"
    using hwnd by (simp add: setMouseGrabEnabled_def setKeyboardGrabEnabled_def qWarning_def)
  have c: "setOpacity e level W
             = (if qFuzzyCompare e (m_opacity W) level then W else W\<lparr>m_opacity := level\<rparr>)"
    using hwnd by (simp add: setOpacity_def)
  define F where "F = (if testFlag FrameDirty W then
                   (if m_data_flags W AND Qt_FramelessWindowHint = 0
                       \<and> adjustWindowRectEx e
                              \<lparr>RECT_left = 0, RECT_top = 0, RECT_right = 0, RECT_bottom = 0\<rparr>
                              (style W AND NOT WS_OVERLAPPED) False (exStyle W) = None
                    then W\<lparr>warnings := warnings W @ [''frame: AdjustWindowRectEx failed'']\<rparr>
                    else W)
                     \<lparr>m_data_frame := fr, m_flags := m_flags W - {FrameDirty}\<rparr>
                 else W)"
  have fm: "frameMargins e W = (QMargins_plus fr (m_data_customMargins W), F)"
    using fr F_def by (rule frameMargins_explicit)
  have W0': "W0 = (if w_positionIncludesFrame (window W) then F else W)"
    unfolding W0 F_def by simp
  have fields: "calls W0 = calls W" "native W0 = native W" "m_data_hwnd W0 = 0"
    "m_windowState W0 = m_windowState W" "m_savedStyle W0 = m_savedStyle W"
    "m_savedFrameGeometry W0 = m_savedFrameGeometry W"
    using hwnd unfolding W0 by simp_all
  have hF: "m_data_hwnd F = 0" "m_windowState F = m_windowState W"
    using hwnd by (simp_all add: F_def)
  have f: "setGeometry e rect W =
           (if m_windowState W = WindowMinimized then W0\<lparr>m_data_geometry := r\<rparr> else W0)
             \<lparr>platformWindow_geometry := r\<rparr>"
  proof (cases "w_positionIncludesFrame (window W)")
    case True
    then show ?thesis
      using hF by (simp add: setGeometry_def fm Let_def QMargins_plus_def W0' r)
  next
    case False
    then show ?thesis
      using hwnd by (simp add: setGeometry_def Let_def W0' r)
  qed
  have d: "calls (setGeometry e rect W) = calls W
         \<and> native (setGeometry e rect W) = native W
         \<and> m_data_hwnd (setGeometry e rect W) = 0
         \<and> m_windowState (setGeometry e rect W) = m_windowState W
         \<and> m_savedStyle (setGeometry e rect W) = m_savedStyle W
         \<and> m_savedFrameGeometry (setGeometry e rect W) = m_savedFrameGeometry W"
    unfolding f using fields by simp
  from a b c d f show ?thesis by blast
qed

theorem no_handle_operations_witness:
  "setWindowState example_env WindowMaximized example_noHandle = example_noHandle
   \<and> setVisible example_env True example_noHandle = example_noHandle
   \<and> warnings (snd (setMouseGrabEnabled example_env True example_noHandle))
       = [''setMouseGrabEnabled: No handle'']
   \<and> calls (snd (setMouseGrabEnabled example_env True example_noHandle)) = []
   \<and> m_opacity (setOpacity example_env (1 / 2) example_noHandle) = 1 / 2
   \<and> calls (setOpacity example_env (1 / 2) example_noHandle) = []
   \<and> setGeometry example_env (QRect_xywh 0 0 10 10) example_noHandle
       = example_noHandle\<lparr>platformWindow_geometry := QRect_xywh 0 0 10 10\<rparr>
   \<and> calls (setGeometry example_env (QRect_xywh 0 0 10 10) example_noHandle) = []
   \<and> setGeometry example_env (QRect_xywh 0 0 10 10) example_framePosition
       = example_framePosition
           \<lparr>m_data_frame :=
              \<lparr>margin_left = 8, margin_top = 31, margin_right = 8, margin_bottom = 8\<rparr>,
            m_flags := {}, platformWindow_geometry := QRect_xywh 8 31 10 10\<rparr>
   \<and> setGeometry (example_env\<lparr>adjustWindowRectEx := (\<lambda>r s menu x. None)\<rparr>)
       (QRect_xywh 0 0 10 10) example_framePosition
       = example_framePosition
           \<lparr>warnings := [''frame: AdjustWindowRectEx failed''],
            m_flags := {}, platformWindow_geometry := QRect_xywh 0 0 10 10\<rparr>"
proof -
  let ?e = "example_env\<lparr>adjustWindowRectEx := (\<lambda>r s menu x. None)\<rparr>"
  have h: "m_data_hwnd example_noHandle = 0"
    by (simp add: example_noHandle_def)
  have h': "m_data_hwnd example_framePosition = 0"
    by (simp add: example_framePosition_def example_noHandle_def)
  have v: "warnings example_noHandle = [] \<and> calls example_noHandle = []
         \<and> m_opacity example_noHandle = 1
         \<and> \<not> w_positionIncludesFrame (window example_noHandle)
         \<and> m_windowState example_noHandle \<noteq> WindowMinimized
         \<and> \<not> qFuzzyCompare example_env 1 (1 / 2)"
    by (simp add: example_noHandle_def example_world_def example_window_def example_env_def)
  have fr: "\<lparr>margin_left = 8, margin_top = 31, margin_right = 8, margin_bottom = 8\<rparr> =
              (if \<not> testFlag FrameDirty example_framePosition
               then m_data_frame example_framePosition
               else if m_data_flags example_framePosition AND Qt_FramelessWindowHint \<noteq> 0
               then QMargins_zero
               else (case adjustWindowRectEx example_env
                            \<lparr>RECT_left = 0, RECT_top = 0, RECT_right = 0, RECT_bottom = 0\<rparr>
                            (style example_framePosition AND NOT WS_OVERLAPPED) False
                            (exStyle example_framePosition) of
                       Some rc \<Rightarrow> \<lparr>margin_left = \<bar>RECT_left rc\<bar>, margin_top = \<bar>RECT_top rc\<bar>,
                                   margin_right = \<bar>RECT_right rc\<bar>,
                                   margin_bottom = \<bar>RECT_bottom rc\<bar>\<rparr>
                     | None \<Rightarrow> QMargins_zero))"
    by code_simp
  have W0: "example_framePosition
              \<lparr>m_data_frame :=
                 \<lparr>margin_left = 8, margin_top = 31, margin_right = 8, margin_bottom = 8\<rparr>,
               m_flags := {}\<rparr> =
            (if w_positionIncludesFrame (window example_framePosition)
                \<and> testFlag FrameDirty example_framePosition then
               (if m_data_flags example_framePosition AND Qt_FramelessWindowHint = 0
                   \<and> adjustWindowRectEx example_env
                          \<lparr>RECT_left = 0, RECT_top = 0, RECT_right = 0, RECT_bottom = 0\<rparr>
                          (style example_framePosition AND NOT WS_OVERLAPPED) False
                          (exStyle example_framePosition) = None
                then example_framePosition
                       \<lparr>warnings := warnings example_framePosition
                                      @ [''frame: AdjustWindowRectEx failed'']\<rparr>
                else example_framePosition)
                 \<lparr>m_data_frame :=
                    \<lparr>margin_left = 8, margin_top = 31, margin_right = 8, margin_bottom = 8\<rparr>,
                  m_flags := m_flags example_framePosition - {FrameDirty}\<rparr>
             else example_framePosition)"
    by (simp add: example_framePosition_def example_noHandle_def example_world_def
        example_window_def example_env_def testFlag_def Qt_FramelessWindowHint_def)
  have r: "QRect_xywh 8 31 10 10 =
             (if w_positionIncludesFrame (window example_framePosition) then
                 moveTopLeft (QRect_xywh 0 0 10 10)
                   (QPoint_plus (topLeft (QRect_xywh 0 0 10 10))
                      \<lparr>px = margin_left
                              \<lparr>margin_left = 8, margin_top = 31, margin_right = 8,
                               margin_bottom = 8\<rparr>
                            + margin_left (m_data_customMargins example_framePosition),
                       py = margin_top
                              \<lparr>margin_left = 8, margin_top = 31, margin_right = 8,
                               margin_bottom = 8\<rparr>
                            + margin_top (m_data_customMargins example_framePosition)\<rparr>)
               else QRect_xywh 0 0 10 10)"
    by code_simp
  have ms: "m_windowState example_framePosition \<noteq> WindowMinimized" by code_simp
  have fr': "QMargins_zero =
              (if \<not> testFlag FrameDirty example_framePosition
               then m_data_frame example_framePosition
               else if m_data_flags example_framePosition AND Qt_FramelessWindowHint \<noteq> 0
               then QMargins_zero
               else (case adjustWindowRectEx ?e
                            \<lparr>RECT_left = 0, RECT_top = 0, RECT_right = 0, RECT_bottom = 0\<rparr>
                            (style example_framePosition AND NOT WS_OVERLAPPED) False
                            (exStyle example_framePosition) of
                       Some rc \<Rightarrow> \<lparr>margin_left = \<bar>RECT_left rc\<bar>, margin_top = \<bar>RECT_top rc\<bar>,
                                   margin_right = \<bar>RECT_right rc\<bar>,
                                   margin_bottom = \<bar>RECT_bottom rc\<bar>\<rparr>
                     | None \<Rightarrow> QMargins_zero))"
    by (simp add: example_framePosition_def example_noHandle_def example_world_def
        testFlag_def Qt_FramelessWindowHint_def)
  have W0': "example_framePosition
              \<lparr>warnings := [''frame: AdjustWindowRectEx failed''], m_flags := {}\<rparr> =
            (if w_positionIncludesFrame (window example_framePosition)
                \<and> testFlag FrameDirty example_framePosition then
               (if m_data_flags example_framePosition AND Qt_FramelessWindowHint = 0
                   \<and> adjustWindowRectEx ?e
                          \<lparr>RECT_left = 0, RECT_top = 0, RECT_right = 0, RECT_bottom = 0\<rparr>
                          (style example_framePosition AND NOT WS_OVERLAPPED) False
                          (exStyle example_framePosition) = None
                then example_framePosition
                       \<lparr>warnings := warnings example_framePosition
                                      @ [''frame: AdjustWindowRectEx failed'']\<rparr>
                else example_framePosition)
                 \<lparr>m_data_frame := QMargins_zero,
                  m_flags := m_flags example_framePosition - {FrameDirty}\<rparr>
             else example_framePosition)"
    by (simp add: example_framePosition_def example_noHandle_def example_world_def
        example_window_def testFlag_def Qt_FramelessWindowHint_def)
  have r': "QRect_xywh 0 0 10 10 =
             (if w_positionIncludesFrame (window example_framePosition) then
                 moveTopLeft (QRect_xywh 0 0 10 10)
                   (QPoint_plus (topLeft (QRect_xywh 0 0 10 10))
                      \<lparr>px = margin_left QMargins_zero
                            + margin_left (m_data_customMargins example_framePosition),
                       py = margin_top QMargins_zero
                            + margin_top (m_data_customMargins example_framePosition)\<rparr>)
               else QRect_xywh 0 0 10 10)"
    by code_simp
  show ?thesis
    using no_handle_operations
            [OF h refl refl refl,
             of example_env WindowMaximized True _ True "1 / 2" "QRect_xywh 0 0 10 10"]
          no_handle_operations
            [OF h' fr W0 r, of WindowMaximized True _ True "1 / 2"]
          no_handle_operations
            [OF h' fr' W0' r', of WindowMaximized True _ True "1 / 2"]
          v ms
    by simp
qed

theorem no_handle_operations_counterexample:
  "m_data_hwnd example_noHandle = 0
   \<and> warnings example_noHandle = []
   \<and> warnings (setWindowState example_env WindowMaximized example_noHandle) = []
   \<and> warnings (setVisible example_env True example_noHandle) = []
   \<and> m_windowState (setWindowState example_env WindowMaximized example_noHandle)
       = WindowNoState"
  by code_simp

end
